theory Spec2Isabelle
  imports Complex_Main
begin

section \<open>JavaScript values\<close>

text \<open>
  A JavaScript string is a sequence of UTF-16 code units. Text that the program reads or
  writes as a whole (URLs, file names, response fragments, messages) is modelled as an
  Isabelle \<open>string\<close>, one character per code unit, which covers every text whose code
  units are below 256 (all of ASCII). A string inside a JSON value is a list of code
  units, because a \<open>\uXXXX\<close> escape can denote any of them.
\<close>

type_synonym jstring = "nat list"

definition js :: "string \<Rightarrow> jstring" where
  "js s = map of_char s"

text \<open>
  The values \<open>JSON.parse\<close> and \<open>response.json()\<close> produce. A number is kept as the
  exact rational its literal denotes (the rounding to a double is not modelled). An
  object keeps its members in source order; a repeated key is read at its last
  occurrence, as in JavaScript.
\<close>

datatype json =
    JNull
  | JBool bool
  | JNum rat
  | JStr jstring
  | JArr "json list"
  | JObj "(jstring \<times> json) list"

text \<open>What a JavaScript expression can throw; \<open>error instanceof Error\<close> tells the two apart.\<close>

datatype thrown = Error string | NonError

text \<open>
  Reading a property \<open>v.k\<close> of a parsed value, for a key \<open>k\<close> that no prototype defines
  (\<open>type\<close>, \<open>chunk_id\<close>, \<open>content\<close>, ...): \<open>None\<close> is \<open>undefined\<close>, and reading
  a property of \<open>null\<close> throws a TypeError.
\<close>

fun ownProp :: "json \<Rightarrow> jstring \<Rightarrow> json option" where
  "ownProp (JObj kvs) k = map_of (rev kvs) k"
| "ownProp v k = None"

definition getProp :: "json \<Rightarrow> jstring \<Rightarrow> thrown + json option" where
  "getProp v k = (if v = JNull then Inl (Error ''TypeError'') else Inr (ownProp v k))"

text \<open>Truthiness of a value (\<open>None\<close> is \<open>undefined\<close>).\<close>

fun truthy :: "json option \<Rightarrow> bool" where
  "truthy None = False"
| "truthy (Some JNull) = False"
| "truthy (Some (JBool b)) = b"
| "truthy (Some (JNum r)) = (r \<noteq> 0)"
| "truthy (Some (JStr s)) = (s \<noteq> [])"
| "truthy (Some (JArr vs)) = True"
| "truthy (Some (JObj kvs)) = True"

text \<open>The operator \<open>a || b\<close>.\<close>

definition js_or :: "json option \<Rightarrow> json option \<Rightarrow> json option" where
  "js_or a b = (if truthy a then a else b)"

section \<open>JavaScript strings\<close>

definition charCode :: "char \<Rightarrow> nat" where
  "charCode c = of_char c"

definition LF :: char where
  "LF = CHR 0x0A"

text \<open>\<open>s.startsWith(p)\<close>, \<open>s.includes(p)\<close> and \<open>s.slice(n)\<close> (which is \<open>drop n s\<close>).\<close>

definition startsWith :: "string \<Rightarrow> string \<Rightarrow> bool" where
  "startsWith s p = (take (length p) s = p)"

fun includesStr :: "string \<Rightarrow> string \<Rightarrow> bool" where
  "includesStr [] p = (p = [])"
| "includesStr (c # s) p = (startsWith (c # s) p \<or> includesStr s p)"

text \<open>
  \<open>s.split(sep)\<close> for a one-character separator: the pieces between the separators, so
  a string with \<open>n\<close> separators gives \<open>n + 1\<close> pieces and the empty string gives one
  empty piece.
\<close>

fun splitFrom :: "char \<Rightarrow> string \<Rightarrow> string \<Rightarrow> string list" where
  "splitFrom sep cur [] = [rev cur]"
| "splitFrom sep cur (c # s) =
     (if c = sep then rev cur # splitFrom sep [] s else splitFrom sep (c # cur) s)"

definition splitOn :: "char \<Rightarrow> string \<Rightarrow> string list" where
  "splitOn sep s = splitFrom sep [] s"

text \<open>
  \<open>s.trim()\<close> removes white space and line terminators at both ends; among the code
  units below 256 these are tab, line feed, vertical tab, form feed, carriage return,
  space and no-break space.
\<close>

definition isWhiteSpace :: "char \<Rightarrow> bool" where
  "isWhiteSpace c = (charCode c \<in> {0x09, 0x0A, 0x0B, 0x0C, 0x0D, 0x20, 0xA0})"

definition trim :: "string \<Rightarrow> string" where
  "trim s = rev (dropWhile isWhiteSpace (rev (dropWhile isWhiteSpace s)))"

text \<open>
  \<open>s.toLowerCase()\<close> on code units below 256: the ASCII capitals and the Latin-1
  capitals (0xC0 to 0xDE, without the multiplication sign 0xD7) move up by 32.
\<close>

definition lowerChar :: "char \<Rightarrow> char" where
  "lowerChar c =
     (let n = charCode c
      in if (0x41 \<le> n \<and> n \<le> 0x5A) \<or> (0xC0 \<le> n \<and> n \<le> 0xDE \<and> n \<noteq> 0xD7)
         then char_of (n + 32) else c)"

definition toLowerCase :: "string \<Rightarrow> string" where
  "toLowerCase s = map lowerChar s"

text \<open>The decimal digits of a natural number, as a template literal prints it.\<close>

function showNat :: "nat \<Rightarrow> string" where
  "showNat n =
     (if n < 10 then [char_of (48 + n)] else showNat (n div 10) @ [char_of (48 + n mod 10)])"
  by pat_completeness auto
termination
  by (relation "measure (\<lambda>n. n)") auto

section \<open>JSON.parse\<close>

text \<open>
  The platform's \<open>JSON.parse\<close>, written out as a recursive-descent parser for the JSON
  grammar: \<open>None\<close> stands for the SyntaxError it throws. The three mutually recursive
  functions carry a bound on the depth of their calls; a well-formed value needs no more
  nested calls than it has characters, so one more than the length of the text is enough.
\<close>

definition isJsonSpace :: "char \<Rightarrow> bool" where
  "isJsonSpace c = (c = CHR '' '' \<or> c = CHR 0x09 \<or> c = CHR 0x0A \<or> c = CHR 0x0D)"

definition skipSpace :: "string \<Rightarrow> string" where
  "skipSpace s = dropWhile isJsonSpace s"

definition isDigit :: "char \<Rightarrow> bool" where
  "isDigit c = (0x30 \<le> charCode c \<and> charCode c \<le> 0x39)"

definition digitVal :: "char \<Rightarrow> nat" where
  "digitVal c = charCode c - 0x30"

definition hexVal :: "char \<Rightarrow> nat option" where
  "hexVal c =
     (if isDigit c then Some (digitVal c)
      else if 0x61 \<le> charCode c \<and> charCode c \<le> 0x66 then Some (charCode c - 0x61 + 10)
      else if 0x41 \<le> charCode c \<and> charCode c \<le> 0x46 then Some (charCode c - 0x41 + 10)
      else None)"

definition hex4 :: "char \<Rightarrow> char \<Rightarrow> char \<Rightarrow> char \<Rightarrow> nat option" where
  "hex4 a b c d =
     (case (hexVal a, hexVal b, hexVal c, hexVal d) of
        (Some w, Some x, Some y, Some z) \<Rightarrow> Some (((w * 16 + x) * 16 + y) * 16 + z)
      | _ \<Rightarrow> None)"

definition escapeChar :: "char \<Rightarrow> nat option" where
  "escapeChar e =
     (if e = CHR 0x22 then Some 0x22
      else if e = CHR 0x5C then Some 0x5C
      else if e = CHR ''/'' then Some 0x2F
      else if e = CHR ''b'' then Some 0x08
      else if e = CHR ''f'' then Some 0x0C
      else if e = CHR ''n'' then Some 0x0A
      else if e = CHR ''r'' then Some 0x0D
      else if e = CHR ''t'' then Some 0x09
      else None)"

text \<open>The rest of a string literal after its opening quote, up to the closing quote.\<close>

fun parseString :: "string \<Rightarrow> jstring \<Rightarrow> (jstring \<times> string) option" where
  "parseString [] acc = None"
| "parseString (c # cs) acc =
     (if c = CHR 0x22 then Some (rev acc, cs)
      else if c = CHR 0x5C then
        (case cs of
           [] \<Rightarrow> None
         | e # r \<Rightarrow>
             if e = CHR ''u'' then
               (case r of
                  h1 # h2 # h3 # h4 # r' \<Rightarrow>
                    (case hex4 h1 h2 h3 h4 of
                       None \<Rightarrow> None
                     | Some n \<Rightarrow> parseString r' (n # acc))
                | _ \<Rightarrow> None)
             else
               (case escapeChar e of
                  None \<Rightarrow> None
                | Some n \<Rightarrow> parseString r (n # acc)))
      else if charCode c < 0x20 then None
      else parseString cs (charCode c # acc))"

definition natOfDigits :: "string \<Rightarrow> nat" where
  "natOfDigits ds = foldl (\<lambda>a c. 10 * a + digitVal c) 0 ds"

definition parseInteger :: "string \<Rightarrow> (nat \<times> string) option" where
  "parseInteger s =
     (case s of
        [] \<Rightarrow> None
      | c # r \<Rightarrow>
          if c = CHR ''0'' then Some (0, r)
          else if isDigit c then Some (natOfDigits (takeWhile isDigit s), dropWhile isDigit s)
          else None)"

definition parseFraction :: "string \<Rightarrow> (rat \<times> string) option" where
  "parseFraction s =
     (case s of
        [] \<Rightarrow> Some (0, s)
      | c # r \<Rightarrow>
          if c = CHR ''.'' then
            (let ds = takeWhile isDigit r
             in if ds = [] then None
                else Some (of_nat (natOfDigits ds) / 10 ^ length ds, dropWhile isDigit r))
          else Some (0, s))"

definition parseExponent :: "string \<Rightarrow> (int \<times> string) option" where
  "parseExponent s =
     (case s of
        [] \<Rightarrow> Some (0, s)
      | c # r \<Rightarrow>
          if c = CHR ''e'' \<or> c = CHR ''E'' then
            (let (neg, r1) =
                   (case r of
                      [] \<Rightarrow> (False, r)
                    | x # r' \<Rightarrow>
                        if x = CHR ''-'' then (True, r')
                        else if x = CHR ''+'' then (False, r')
                        else (False, r));
                 ds = takeWhile isDigit r1
             in if ds = [] then None
                else Some ((if neg then - int (natOfDigits ds) else int (natOfDigits ds)),
                           dropWhile isDigit r1))
          else Some (0, s))"

definition parseNumber :: "string \<Rightarrow> (rat \<times> string) option" where
  "parseNumber s =
     (let (neg, s1) = (case s of
                         [] \<Rightarrow> (False, s)
                       | c # r \<Rightarrow> if c = CHR ''-'' then (True, r) else (False, s))
      in case parseInteger s1 of
           None \<Rightarrow> None
         | Some (n, s2) \<Rightarrow>
             (case parseFraction s2 of
                None \<Rightarrow> None
              | Some (f, s3) \<Rightarrow>
                  (case parseExponent s3 of
                     None \<Rightarrow> None
                   | Some (e, s4) \<Rightarrow>
                       (let m = of_nat n + f;
                            v = (if 0 \<le> e then m * 10 ^ nat e else m / 10 ^ nat (- e))
                        in Some (if neg then - v else v, s4)))))"

fun parseValue :: "nat \<Rightarrow> string \<Rightarrow> (json \<times> string) option"
  and parseElements :: "nat \<Rightarrow> string \<Rightarrow> json list \<Rightarrow> (json \<times> string) option"
  and parseMembers :: "nat \<Rightarrow> string \<Rightarrow> (jstring \<times> json) list \<Rightarrow> (json \<times> string) option"
where
  "parseValue 0 s = None"
| "parseValue (Suc n) s =
     (case skipSpace s of
        [] \<Rightarrow> None
      | c # r \<Rightarrow>
          if c = CHR ''{'' then
            (case skipSpace r of
               [] \<Rightarrow> None
             | d # r' \<Rightarrow> if d = CHR ''}'' then Some (JObj [], r') else parseMembers n r [])
          else if c = CHR ''['' then
            (case skipSpace r of
               [] \<Rightarrow> None
             | d # r' \<Rightarrow> if d = CHR '']'' then Some (JArr [], r') else parseElements n r [])
          else if c = CHR 0x22 then
            (case parseString r [] of None \<Rightarrow> None | Some (str, r') \<Rightarrow> Some (JStr str, r'))
          else if startsWith (c # r) ''true'' then Some (JBool True, drop 4 (c # r))
          else if startsWith (c # r) ''false'' then Some (JBool False, drop 5 (c # r))
          else if startsWith (c # r) ''null'' then Some (JNull, drop 4 (c # r))
          else
            (case parseNumber (c # r) of None \<Rightarrow> None | Some (x, r') \<Rightarrow> Some (JNum x, r')))"
| "parseElements 0 s acc = None"
| "parseElements (Suc n) s acc =
     (case parseValue n s of
        None \<Rightarrow> None
      | Some (v, r) \<Rightarrow>
          (case skipSpace r of
             [] \<Rightarrow> None
           | c # r' \<Rightarrow>
               if c = CHR '','' then parseElements n r' (acc @ [v])
               else if c = CHR '']'' then Some (JArr (acc @ [v]), r')
               else None))"
| "parseMembers 0 s acc = None"
| "parseMembers (Suc n) s acc =
     (case skipSpace s of
        [] \<Rightarrow> None
      | q # r \<Rightarrow>
          if q = CHR 0x22 then
            (case parseString r [] of
               None \<Rightarrow> None
             | Some (k, r1) \<Rightarrow>
                 (case skipSpace r1 of
                    [] \<Rightarrow> None
                  | c # r2 \<Rightarrow>
                      if c = CHR '':'' then
                        (case parseValue n r2 of
                           None \<Rightarrow> None
                         | Some (v, r3) \<Rightarrow>
                             (case skipSpace r3 of
                                [] \<Rightarrow> None
                              | d # r4 \<Rightarrow>
                                  if d = CHR '','' then parseMembers n r4 (acc @ [(k, v)])
                                  else if d = CHR ''}'' then Some (JObj (acc @ [(k, v)]), r4)
                                  else None))
                      else None))
          else None)"

definition JSON_parse :: "string \<Rightarrow> json option" where
  "JSON_parse s =
     (case parseValue (Suc (length s)) s of
        None \<Rightarrow> None
      | Some (v, r) \<Rightarrow> if skipSpace r = [] then Some v else None)"

section \<open>Types of the application (types/index.ts)\<close>

datatype case_status = active | archived | completed

record Case =
  id_case :: string
  user_id :: string
  title :: string
  description :: "string option"
  status_case :: case_status
  qdrant_collection_name :: "string option"
  created_at :: string
  updated_at :: string

record ChatThread =
  id_thread :: string
  case_id_thread :: string
  user_id_thread :: string
  title_thread :: string
  created_at_thread :: string
  updated_at_thread :: string

text \<open>
  A citation as \<open>chatWithCase\<close> builds it. The backend's JSON is untyped, so each field
  holds whatever JavaScript value the mapping puts there.
\<close>

record Citation =
  chunk_id :: json
  content :: json
  full_content :: json
  page_number :: json
  chunk_number :: json
  document_id :: json
  document_name :: json
  case_id :: json
  score :: json
  id_citation :: json
  documentId :: json
  documentTitle :: json
  relevantSourceText :: json
  page :: json

datatype chat_role = user_role | assistant_role

record ChatMessage =
  id_message :: string
  thread_id :: string
  role :: chat_role
  content_message :: string
  citations :: "Citation list option"
  created_at_message :: string

section \<open>The application store (store/useAppStore.ts)\<close>

datatype theme_mode = light | dark | system

record AppStore =
  sidebarOpen :: bool
  currentCase :: "Case option"
  currentThread :: "ChatThread option"
  isLoading :: bool
  error :: "string option"
  cases :: "Case list"
  chatMessages :: "ChatMessage list"
  selectedCitation :: "Citation option"
  isTyping :: bool
  streamingContent :: string
  createCaseModalOpen :: bool
  citationModalOpen :: bool
  theme :: theme_mode

text \<open>The store as \<open>create\<close> initialises it.\<close>

definition initialStore :: AppStore where
  "initialStore =
     \<lparr> sidebarOpen = True, currentCase = None, currentThread = None, isLoading = False,
       error = None, cases = [], chatMessages = [], selectedCitation = None,
       isTyping = False, streamingContent = [], createCaseModalOpen = False,
       citationModalOpen = False, theme = system \<rparr>"

text \<open>\<open>set\<close> merges the given fields into the state; an action is a state transformer.\<close>

definition setCurrentCase :: "Case option \<Rightarrow> AppStore \<Rightarrow> AppStore" where
  "setCurrentCase caseItem state =
     state\<lparr> currentCase := caseItem,
            currentThread := None,
            chatMessages := [],
            streamingContent := [],
            selectedCitation := None \<rparr>"

definition setCurrentThread :: "ChatThread option \<Rightarrow> AppStore \<Rightarrow> AppStore" where
  "setCurrentThread thread state =
     state\<lparr> currentThread := thread,
            chatMessages := [],
            streamingContent := [],
            selectedCitation := None \<rparr>"

definition setCases :: "Case list \<Rightarrow> AppStore \<Rightarrow> AppStore" where
  "setCases cs state = state\<lparr> cases := cs \<rparr>"

definition addCase :: "Case \<Rightarrow> AppStore \<Rightarrow> AppStore" where
  "addCase caseItem state = state\<lparr> cases := caseItem # cases state \<rparr>"

text \<open>
  \<open>state.currentCase?.id === caseId\<close>: with no current case the left side is
  \<open>undefined\<close>, which is never strictly equal to a string.
\<close>

definition isCurrentCase :: "AppStore \<Rightarrow> string \<Rightarrow> bool" where
  "isCurrentCase state caseId =
     (case currentCase state of None \<Rightarrow> False | Some c \<Rightarrow> id_case c = caseId)"

definition removeCase :: "string \<Rightarrow> AppStore \<Rightarrow> AppStore" where
  "removeCase caseId state =
     state\<lparr> cases := filter (\<lambda>c. id_case c \<noteq> caseId) (cases state),
            currentCase := (if isCurrentCase state caseId then None else currentCase state),
            currentThread := (if isCurrentCase state caseId then None else currentThread state),
            chatMessages := (if isCurrentCase state caseId then [] else chatMessages state) \<rparr>"

definition setChatMessages :: "ChatMessage list \<Rightarrow> AppStore \<Rightarrow> AppStore" where
  "setChatMessages messages state = state\<lparr> chatMessages := messages \<rparr>"

definition addChatMessage :: "ChatMessage \<Rightarrow> AppStore \<Rightarrow> AppStore" where
  "addChatMessage message state = state\<lparr> chatMessages := chatMessages state @ [message] \<rparr>"

definition setSelectedCitation :: "Citation option \<Rightarrow> AppStore \<Rightarrow> AppStore" where
  "setSelectedCitation citation state = state\<lparr> selectedCitation := citation \<rparr>"

definition appendStreamingContent :: "string \<Rightarrow> AppStore \<Rightarrow> AppStore" where
  "appendStreamingContent c state = state\<lparr> streamingContent := streamingContent state @ c \<rparr>"

section \<open>HTTP responses\<close>

text \<open>
  What \<open>reader.read()\<close> yields: the next fragment of the body, or an exception. A body is
  the list of these in order; when the list is used up the reader reports \<open>done\<close>. A
  fragment is given as the text \<open>decoder.decode(value)\<close> makes of its bytes; for ASCII
  bytes that text is the bytes themselves.
\<close>

datatype read_result = Fragment string | ReadThrows thrown

record Response =
  status :: nat
  body :: "read_result list option"

text \<open>\<open>response.ok\<close>\<close>

definition ok :: "Response \<Rightarrow> bool" where
  "ok r = (200 \<le> status r \<and> status r \<le> 299)"

section \<open>The streaming chat consumer (lib/api.ts)\<close>

text \<open>
  Everything \<open>streamChatWithDocuments\<close> does to the outside, in order: a call of
  \<open>reader.read()\<close>, of one of the three callbacks, or of \<open>console.warn\<close> with the
  payload it could not use. The callbacks are the caller's; they are taken to return
  normally.
\<close>

datatype effect =
    ReaderRead
  | OnChunk json
  | OnError string
  | OnComplete
  | ConsoleWarn string

text \<open>
  \<open>parsedData.type === 'done' || parsedData.type === 'error'\<close>, for the value \<open>t\<close> that
  reading \<open>parsedData.type\<close> gave.
\<close>

definition isTerminalType :: "json option \<Rightarrow> bool" where
  "isTerminalType t = (t = Some (JStr (js ''done'')) \<or> t = Some (JStr (js ''error'')))"

text \<open>
  The \<open>for\<close> loop over the lines of one fragment. The result says what happened and
  whether the function returned from inside the loop. \<open>parse\<close> is \<open>JSON.parse\<close>. When
  the parsed value is \<open>null\<close>, \<open>onChunk\<close> has been called before \<open>parsedData.type\<close>
  throws, and the \<open>catch\<close> around both logs the payload.
\<close>

fun processLines :: "(string \<Rightarrow> json option) \<Rightarrow> string list \<Rightarrow> effect list \<times> bool" where
  "processLines parse [] = ([], False)"
| "processLines parse (line # lines) =
     (if startsWith line ''data: '' then
        (let data = drop 6 line
         in if trim data = [] then processLines parse lines
            else
              (case parse data of
                 None \<Rightarrow>
                   (let (es, returned) = processLines parse lines
                    in (ConsoleWarn data # es, returned))
               | Some parsedData \<Rightarrow>
                   (case getProp parsedData (js ''type'') of
                      Inl e \<Rightarrow>
                        (let (es, returned) = processLines parse lines
                         in (OnChunk parsedData # ConsoleWarn data # es, returned))
                    | Inr t \<Rightarrow>
                        if isTerminalType t then ([OnChunk parsedData, OnComplete], True)
                        else
                          (let (es, returned) = processLines parse lines
                           in (OnChunk parsedData # es, returned)))))
      else processLines parse lines)"

text \<open>
  The \<open>while (true)\<close> loop over the reader. It ends when the reader reports \<open>done\<close>
  (the list is used up), when a read throws, or when the inner loop returned. The second
  component is the exception that leaves the loop, if any.
\<close>

fun readLoop :: "(string \<Rightarrow> json option) \<Rightarrow> read_result list \<Rightarrow> effect list \<times> thrown option" where
  "readLoop parse [] = ([ReaderRead, OnComplete], None)"
| "readLoop parse (ReadThrows e # rest) = ([ReaderRead], Some e)"
| "readLoop parse (Fragment chunk # rest) =
     (let (es, returned) = processLines parse (splitOn LF chunk)
      in if returned then (ReaderRead # es, None)
         else (let (es', e) = readLoop parse rest in (ReaderRead # es @ es', e)))"

text \<open>\<open>error instanceof Error ? error.message : 'Unknown error occurred'\<close>\<close>

fun errorMessage :: "thrown \<Rightarrow> string" where
  "errorMessage (Error m) = m"
| "errorMessage NonError = ''Unknown error occurred''"

text \<open>The \<open>try\<close> block of the function, up to the exception that leaves it.\<close>

definition streamBody :: "(string \<Rightarrow> json option) \<Rightarrow> thrown + Response \<Rightarrow> effect list \<times> thrown option" where
  "streamBody parse answer =
     (case answer of
        Inl e \<Rightarrow> ([], Some e)
      | Inr response \<Rightarrow>
          if \<not> ok response then
            ([], Some (Error (''HTTP error! status: '' @ showNat (status response))))
          else
            (case body response of
               None \<Rightarrow> ([], Some (Error ''No reader available''))
             | Some reader \<Rightarrow> readLoop parse reader))"

text \<open>
  The whole function. \<open>secureApiRequest\<close> is \<open>None\<close> while the service is not
  initialised, and otherwise holds what the request to \<open>/api/chat/chat\<close> comes back with
  (the request is always the same POST with \<open>Accept: text/event-stream\<close>, and nothing
  below depends on what was sent). The promise is rejected (\<open>Inl\<close>) only in the first
  case; every exception inside the \<open>try\<close> goes to \<open>onError\<close>.
\<close>

definition streamChatWithDocuments ::
  "(string \<Rightarrow> json option) \<Rightarrow> (thrown + Response) option \<Rightarrow> effect list \<times> (thrown + unit)" where
  "streamChatWithDocuments parse secureApiRequest =
     (case secureApiRequest of
        None \<Rightarrow> ([], Inl (Error ''API service not initialized''))
      | Some answer \<Rightarrow>
          (case streamBody parse answer of
             (es, None) \<Rightarrow> (es, Inr ())
           | (es, Some e) \<Rightarrow> (es @ [OnError (errorMessage e)], Inr ())))"

text \<open>
  One round of the loop on a fragment: what it does, and whether the function returns in it.
\<close>

definition fragmentEffects :: "(string \<Rightarrow> json option) \<Rightarrow> string \<Rightarrow> effect list" where
  "fragmentEffects parse chunk = ReaderRead # fst (processLines parse (splitOn LF chunk))"

definition fragmentReturns :: "(string \<Rightarrow> json option) \<Rightarrow> string \<Rightarrow> bool" where
  "fragmentReturns parse chunk = snd (processLines parse (splitOn LF chunk))"

text \<open>A successful streaming response with the given fragments as its body.\<close>

definition sseResponse :: "string list \<Rightarrow> (thrown + Response) option" where
  "sseResponse fragments =
     Some (Inr \<lparr> status = 200, body = Some (map Fragment fragments) \<rparr>)"

text \<open>The arguments of the \<open>onChunk\<close> calls, and the number of \<open>onComplete\<close> calls.\<close>

fun onChunkCalls :: "effect list \<Rightarrow> json list" where
  "onChunkCalls [] = []"
| "onChunkCalls (OnChunk v # es) = v # onChunkCalls es"
| "onChunkCalls (e # es) = onChunkCalls es"

definition onCompleteCalls :: "effect list \<Rightarrow> nat" where
  "onCompleteCalls es = length (filter (\<lambda>e. e = OnComplete) es)"

definition onErrorCalls :: "effect list \<Rightarrow> nat" where
  "onErrorCalls es = length (filter (\<lambda>e. case e of OnError m \<Rightarrow> True | _ \<Rightarrow> False) es)"

text \<open>The events and lines of the examples.\<close>

definition contentEvent :: json where
  "contentEvent = JObj [(js ''type'', JStr (js ''content'')), (js ''content'', JStr (js ''hi''))]"

definition doneEvent :: json where
  "doneEvent = JObj [(js ''type'', JStr (js ''done''))]"

definition contentLine :: string where
  \<open>contentLine = ''data: {"type":"content","content":"hi"}''\<close>

definition doneLine :: string where
  \<open>doneLine = ''data: {"type":"done"}''\<close>

section \<open>Session and authentication state (components/AuthProvider.tsx)\<close>

record User =
  id_user :: string
  email :: string
  name_user :: string
  is_active :: bool
  created_at_user :: string
  updated_at_user :: string
  last_login_at :: "string option"

text \<open>
  The options of a request. The headers are a JavaScript object: keys in insertion order,
  an assignment to an existing key replaces its value in place. A body is either
  \<open>JSON.stringify\<close> of a value or a multipart form.
\<close>

datatype request_body = JsonBody json | FormDataBody

record RequestInit =
  method_init :: "string option"
  headers :: "(string \<times> string) list"
  body_init :: "request_body option"

definition setHeader :: "string \<Rightarrow> string \<Rightarrow> (string \<times> string) list \<Rightarrow> (string \<times> string) list" where
  "setHeader k v hs =
     (if k \<in> fst ` set hs then map (\<lambda>(k', v'). if k' = k then (k', v) else (k', v')) hs
      else hs @ [(k, v)])"

definition deleteHeader :: "string \<Rightarrow> (string \<times> string) list \<Rightarrow> (string \<times> string) list" where
  "deleteHeader k hs = filter (\<lambda>(k', v'). k' \<noteq> k) hs"

text \<open>
  The React state of the provider together with the parts of the browser it touches: the
  \<open>access_token\<close> item of \<open>sessionStorage\<close>, the routes given to \<open>router.push\<close>, the
  navigations scheduled with \<open>setTimeout\<close> (delay and route), and the requests handed to
  \<open>fetch\<close>. \<open>window\<close> is \<open>typeof window !== 'undefined'\<close>.
\<close>

record AuthState =
  user :: "User option"
  isLoading_auth :: bool
  isAuthenticated :: bool
  accessToken :: "string option"
  window :: bool
  session_access_token :: "string option"
  NEXT_PUBLIC_API_URL :: "string option"
  pushed :: "string list"
  timeouts :: "(nat \<times> string) list"
  fetched :: "(string \<times> RequestInit) list"

text \<open>Truthiness of a string that may be \<open>null\<close> or \<open>undefined\<close>, and \<open>a || b\<close> on such strings.\<close>

fun truthyStr :: "string option \<Rightarrow> bool" where
  "truthyStr None = False"
| "truthyStr (Some s) = (s \<noteq> [])"

definition orStr :: "string option \<Rightarrow> string \<Rightarrow> string" where
  "orStr a d = (case a of None \<Rightarrow> d | Some s \<Rightarrow> if s \<noteq> [] then s else d)"

definition apiUrl :: "AuthState \<Rightarrow> string" where
  "apiUrl s = orStr (NEXT_PUBLIC_API_URL s) ''http://localhost:5000''"

definition storeToken :: "string \<Rightarrow> AuthState \<Rightarrow> AuthState" where
  "storeToken token s =
     s\<lparr> accessToken := Some token,
        session_access_token := (if window s then Some token else session_access_token s) \<rparr>"

definition getStoredToken :: "AuthState \<Rightarrow> string option" where
  "getStoredToken s = (if window s then session_access_token s else None)"

definition removeToken :: "AuthState \<Rightarrow> AuthState" where
  "removeToken s =
     s\<lparr> accessToken := None,
        session_access_token := (if window s then None else session_access_token s) \<rparr>"

text \<open>\<open>accessToken || getStoredToken()\<close>\<close>

definition currentToken :: "AuthState \<Rightarrow> string option" where
  "currentToken s = (if truthyStr (accessToken s) then accessToken s else getStoredToken s)"

definition bearer :: "string option \<Rightarrow> string" where
  "bearer token = ''Bearer '' @ orStr token []"

text \<open>
  \<open>logout\<close>. The answer to the server-side request is not looked at, and an exception
  from it is caught, so only the fact that the request was made is recorded; the
  \<open>finally\<close> block runs in every case.
\<close>

definition logout :: "AuthState \<Rightarrow> AuthState" where
  "logout s =
     (let token = currentToken s;
          s1 = (if truthyStr token
                then s\<lparr> fetched := fetched s @
                        [(apiUrl s @ ''/api/auth/logout'',
                          \<lparr> method_init = Some ''POST'',
                            headers = [(''Authorization'', bearer token)],
                            body_init = None \<rparr>)] \<rparr>
                else s);
          s2 = removeToken s1
      in s2\<lparr> user := None, isAuthenticated := False, pushed := pushed s2 @ [''/login''] \<rparr>)"

text \<open>The response \<open>apiRequest\<close> makes up after a 401.\<close>

definition sessionExpired :: Response where
  \<open>sessionExpired = \<lparr> status = 401, body = Some [Fragment ''{"error":"Session expired"}''] \<rparr>\<close>

definition requestHeaders :: "AuthState \<Rightarrow> RequestInit \<Rightarrow> (string \<times> string) list" where
  "requestHeaders s options =
     (let h1 = foldl (\<lambda>h (k, v). setHeader k v h) [(''Content-Type'', ''application/json'')]
                 (headers options);
          token = currentToken s;
          h2 = (if truthyStr token then setHeader ''Authorization'' (bearer token) h1 else h1)
      in if body_init options = Some FormDataBody then deleteHeader ''Content-Type'' h2 else h2)"

text \<open>
  \<open>apiRequest\<close>. \<open>fetch\<close> gives the network's answer to a request: an exception or a
  response. An exception from \<open>fetch\<close> leaves the function.
\<close>

definition apiRequest ::
  "(string \<Rightarrow> RequestInit \<Rightarrow> thrown + Response) \<Rightarrow> string \<Rightarrow> RequestInit \<Rightarrow> AuthState
     \<Rightarrow> (thrown + Response) \<times> AuthState" where
  "apiRequest fetch url options s =
     (let request = options\<lparr> headers := requestHeaders s options \<rparr>;
          s1 = s\<lparr> fetched := fetched s @ [(apiUrl s @ url, request)] \<rparr>
      in case fetch (apiUrl s @ url) request of
           Inl e \<Rightarrow> (Inl e, s1)
         | Inr response \<Rightarrow>
             if status response = 401 \<and> \<not> includesStr url ''/logout'' \<and> \<not> includesStr url ''/login''
             then (Inr sessionExpired, logout s1)
             else (Inr response, s1))"

text \<open>
  The answer to the login request, with its JSON body at the types the code uses it at:
  \<open>json_login\<close> is what \<open>await response.json()\<close> gives, an exception or the data, where
  \<open>None\<close> is the JSON value \<open>null\<close>.
\<close>

record LoginData =
  access_token :: "string option"
  user_data :: "User option"
  error_data :: "string option"

record LoginResponse =
  ok_login :: bool
  json_login :: "thrown + LoginData option"

record LoginResult =
  success :: bool
  error_result :: "string option"
  user_result :: "User option"

definition loginRequest :: "string \<Rightarrow> string \<Rightarrow> RequestInit" where
  "loginRequest em pw =
     \<lparr> method_init = Some ''POST'',
       headers = [(''Content-Type'', ''application/json'')],
       body_init = Some (JsonBody (JObj [(js ''email'', JStr (js em)), (js ''password'', JStr (js pw))])) \<rparr>"

definition networkError :: LoginResult where
  "networkError = \<lparr> success = False, error_result = Some ''Network error occurred'', user_result = None \<rparr>"

text \<open>
  The \<open>try\<close> block of \<open>login\<close> with its \<open>catch\<close>: an exception from \<open>fetch\<close> or from
  \<open>response.json()\<close>, and the TypeError of reading a field of \<open>null\<close>, all end in the
  network-error result.
\<close>

definition loginAttempt ::
  "(string \<Rightarrow> RequestInit \<Rightarrow> thrown + LoginResponse) \<Rightarrow> string \<Rightarrow> string \<Rightarrow> AuthState
     \<Rightarrow> LoginResult \<times> AuthState" where
  "loginAttempt fetch em pw s =
     (let url = apiUrl s @ ''/api/auth/login'';
          s1 = s\<lparr> isLoading_auth := True, fetched := fetched s @ [(url, loginRequest em pw)] \<rparr>
      in case fetch url (loginRequest em pw) of
           Inl e \<Rightarrow> (networkError, s1)
         | Inr response \<Rightarrow>
             (case json_login response of
                Inl e \<Rightarrow> (networkError, s1)
              | Inr None \<Rightarrow> (networkError, s1)
              | Inr (Some data) \<Rightarrow>
                  if ok_login response \<and> truthyStr (access_token data) then
                    (let s2 = storeToken (orStr (access_token data) []) s1
                     in (\<lparr> success = True, error_result = None, user_result = user_data data \<rparr>,
                         s2\<lparr> user := user_data data, isAuthenticated := True,
                             timeouts := timeouts s2 @ [(100, ''/'')] \<rparr>))
                  else
                    (\<lparr> success = False,
                       error_result = Some (orStr (error_data data) ''Login failed''),
                       user_result = None \<rparr>, s1)))"

definition login ::
  "(string \<Rightarrow> RequestInit \<Rightarrow> thrown + LoginResponse) \<Rightarrow> string \<Rightarrow> string \<Rightarrow> AuthState
     \<Rightarrow> LoginResult \<times> AuthState" where
  "login fetch em pw s =
     (let (result, s') = loginAttempt fetch em pw s
      in (result, s'\<lparr> isLoading_auth := False \<rparr>))"

text \<open>
  When a login attempt counts as successful: the request was answered, the status is a
  success, the body is JSON data and its access token is a non-empty string.
\<close>

definition loginAccepted :: "thrown + LoginResponse \<Rightarrow> bool" where
  "loginAccepted answer =
     (case answer of
        Inl e \<Rightarrow> False
      | Inr response \<Rightarrow>
          ok_login response \<and>
          (case json_login response of
             Inr (Some data) \<Rightarrow> truthyStr (access_token data)
           | _ \<Rightarrow> False))"

section \<open>Upload validation (components/FileUpload.tsx, lib/config.ts)\<close>

text \<open>
  The configuration, with the two limits as natural numbers (their defaults are 40 and
  32). \<open>formatBytes\<close> works in floating point (\<open>Math.log\<close>, \<open>toFixed\<close>); the
  functions that print its result take it as the argument \<open>fmt\<close>.
\<close>

record Config =
  maxFilesPerUpload :: nat
  maxFileSizeMB :: nat

definition defaultConfig :: Config where
  "defaultConfig = \<lparr> maxFilesPerUpload = 40, maxFileSizeMB = 32 \<rparr>"

record File =
  name_file :: string
  size_file :: nat

definition maxFiles :: "Config \<Rightarrow> nat" where
  "maxFiles cfg = maxFilesPerUpload cfg"

definition maxSize :: "Config \<Rightarrow> nat" where
  "maxSize cfg = maxFileSizeMB cfg * 1024 * 1024"

definition tooLargeMessage :: "Config \<Rightarrow> (nat \<Rightarrow> string) \<Rightarrow> File \<Rightarrow> string" where
  \<open>tooLargeMessage cfg fmt file =
     ''File "'' @ name_file file @ ''" is too large. Maximum size is '' @
     showNat (maxFileSizeMB cfg) @ ''MB ('' @ fmt (maxSize cfg) @
     '').Its been removed from the list automatically''\<close>

definition unsupportedMessage :: "string \<Rightarrow> File \<Rightarrow> string" where
  \<open>unsupportedMessage accept file =
     ''File "'' @ name_file file @ ''" has an unsupported format. Accepted formats: '' @ accept\<close>

text \<open>
  \<open>'.' + file.name.split('.').pop()?.toLowerCase()\<close>. \<open>split\<close> never gives an empty
  array; were it empty, \<open>pop()\<close> would give \<open>undefined\<close>.
\<close>

definition extension :: "File \<Rightarrow> string" where
  "extension file =
     (case rev (splitOn (CHR ''.'') (name_file file)) of
        [] \<Rightarrow> ''.undefined''
      | piece # pieces \<Rightarrow> ''.'' @ toLowerCase piece)"

definition acceptedTypes :: "string \<Rightarrow> string list" where
  "acceptedTypes accept = map (\<lambda>t. toLowerCase (trim t)) (splitOn (CHR '','') accept)"

definition defaultAccept :: string where
  "defaultAccept = ''.pdf,.doc,.docx,.txt''"

text \<open>\<open>validateFile\<close>: \<open>None\<close> is \<open>null\<close> (the file is accepted), \<open>Some\<close> carries the message.\<close>

definition validateFile :: "Config \<Rightarrow> (nat \<Rightarrow> string) \<Rightarrow> string \<Rightarrow> File \<Rightarrow> string option" where
  "validateFile cfg fmt accept file =
     (if size_file file > maxSize cfg then Some (tooLargeMessage cfg fmt file)
      else if extension file \<notin> set (acceptedTypes accept) then Some (unsupportedMessage accept file)
      else None)"

text \<open>
  The state of the component and \<open>onDrop\<close>. A rejection of the drop zone carries the
  file and its errors (code and message). When the total would exceed the limit the
  function returns before anything is stored, after the \<open>setErrors([])\<close> of its first line.
\<close>

record UploadState =
  selectedFiles :: "File list"
  errors :: "string list"

record FileRejection =
  file_rejected :: File
  errors_rejected :: "(string \<times> string) list"

definition rejectionMessages :: "Config \<Rightarrow> (nat \<Rightarrow> string) \<Rightarrow> string \<Rightarrow> FileRejection \<Rightarrow> string list" where
  \<open>rejectionMessages cfg fmt accept r =
     map (\<lambda>(code, message).
            if code = ''file-too-large'' then tooLargeMessage cfg fmt (file_rejected r)
            else if code = ''file-invalid-type'' then unsupportedMessage accept (file_rejected r)
            else ''File "'' @ name_file (file_rejected r) @ ''": '' @ message)
         (errors_rejected r)\<close>

definition onDrop ::
  "Config \<Rightarrow> (nat \<Rightarrow> string) \<Rightarrow> string \<Rightarrow> File list \<Rightarrow> FileRejection list \<Rightarrow> UploadState \<Rightarrow> UploadState" where
  "onDrop cfg fmt accept acceptedFiles rejectedFiles st =
     (let validFiles = filter (\<lambda>f. validateFile cfg fmt accept f = None) acceptedFiles;
          newErrors = concat (map (\<lambda>f. case validateFile cfg fmt accept f of
                                         None \<Rightarrow> [] | Some e \<Rightarrow> [e]) acceptedFiles)
                      @ concat (map (rejectionMessages cfg fmt accept) rejectedFiles);
          totalFiles = length (selectedFiles st) + length validFiles
      in if totalFiles > maxFiles cfg then st\<lparr> errors := [] \<rparr>
         else st\<lparr> selectedFiles := selectedFiles st @ validFiles, errors := newErrors \<rparr>)"

text \<open>
  \<open>handleUpload\<close>: the files handed to \<open>onUpload\<close>, which starts the request, if any.
\<close>

definition handleUpload :: "UploadState \<Rightarrow> File list option \<times> UploadState" where
  "handleUpload st =
     (if selectedFiles st \<noteq> [] then (Some (selectedFiles st), \<lparr> selectedFiles = [], errors = [] \<rparr>)
      else (None, st))"

text \<open>A stand-in for \<open>formatBytes\<close> on whole numbers of megabytes.\<close>

definition wholeMB :: "nat \<Rightarrow> string" where
  "wholeMB n = showNat (n div 1048576) @ '' MB''"

section \<open>Citations of a chat answer (lib/api.ts)\<close>

text \<open>\<open>a || d\<close> where \<open>d\<close> is a value, so that the result is one.\<close>

fun orElse :: "json option \<Rightarrow> json \<Rightarrow> json" where
  "orElse None d = d"
| "orElse (Some v) d = (if truthy (Some v) then v else d)"

text \<open>
  The function given to \<open>map\<close> in \<open>chatWithCase\<close>. A citation that is \<open>null\<close> makes the
  first property read throw.
\<close>

definition mapCitation :: "string \<Rightarrow> json \<Rightarrow> thrown + Citation" where
  "mapCitation caseId citation =
     (if citation = JNull then Inl (Error ''TypeError'')
      else
        (let get = (\<lambda>k. ownProp citation (js k))
         in Inr
           \<lparr> chunk_id = orElse (js_or (get ''chunk_id'') (get ''id'')) (JStr []),
             content = orElse (get ''content'') (JStr []),
             full_content = orElse (get ''content'') (JStr []),
             page_number = orElse (get ''page_number'') (JNum 1),
             chunk_number = orElse (get ''chunk_number'') (JNum 0),
             document_id = orElse (get ''document_id'') (JStr []),
             document_name = orElse (js_or (get ''document_name'') (get ''document_id''))
                               (JStr (js ''Unknown Document'')),
             case_id = JStr (js caseId),
             score = orElse (get ''score'') (JNum 0),
             id_citation = orElse (js_or (get ''chunk_id'') (get ''id'')) (JStr []),
             documentId = orElse (get ''document_id'') (JStr []),
             documentTitle = orElse (js_or (get ''document_name'') (get ''document_id''))
                               (JStr (js ''Unknown Document'')),
             relevantSourceText = orElse (get ''content'') (JStr []),
             page = orElse (get ''page_number'') (JNum 1) \<rparr>))"

text \<open>\<open>Array.prototype.map\<close> with a function that may throw: the first exception ends it.\<close>

fun mapCitations :: "string \<Rightarrow> json list \<Rightarrow> thrown + Citation list" where
  "mapCitations caseId [] = Inr []"
| "mapCitations caseId (c # cs) =
     (case mapCitation caseId c of
        Inl e \<Rightarrow> Inl e
      | Inr m \<Rightarrow> (case mapCitations caseId cs of Inl e \<Rightarrow> Inl e | Inr ms \<Rightarrow> Inr (m # ms)))"

record ChatResult =
  response_result :: "json option"
  citations_result :: "Citation list"
  search_results_count :: "json option"
  message_id :: "json option"

text \<open>
  \<open>chatWithCase\<close> from the point where \<open>handleJsonResponse\<close> has answered: \<open>handled\<close> is
  the exception it threw or the parsed body. \<open>(result.citations || [])\<close> must be an array
  for \<open>map\<close> to exist.
\<close>

definition chatWithCase :: "string \<Rightarrow> thrown + json \<Rightarrow> thrown + ChatResult" where
  "chatWithCase caseId handled =
     (case handled of
        Inl e \<Rightarrow> Inl e
      | Inr result \<Rightarrow>
          (case getProp result (js ''citations'') of
             Inl e \<Rightarrow> Inl e
           | Inr c \<Rightarrow>
               (case orElse c (JArr []) of
                  JArr cs \<Rightarrow>
                    (case mapCitations caseId cs of
                       Inl e \<Rightarrow> Inl e
                     | Inr ms \<Rightarrow>
                         Inr \<lparr> response_result = ownProp result (js ''response''),
                               citations_result = ms,
                               search_results_count = ownProp result (js ''search_results_count''),
                               message_id = ownProp result (js ''message_id'') \<rparr>)
                | _ \<Rightarrow> Inl (Error ''TypeError''))))"

text \<open>The two naming conventions of a citation carry the same values.\<close>

definition namesAgree :: "Citation \<Rightarrow> bool" where
  "namesAgree m \<longleftrightarrow>
     id_citation m = chunk_id m \<and> documentId m = document_id m \<and>
     documentTitle m = document_name m \<and> page m = page_number m \<and>
     relevantSourceText m = content m \<and> full_content m = content m"

section \<open>Sample data\<close>

text \<open>The concrete inputs at which the properties below are instantiated.\<close>

definition splitHead :: string where
  \<open>splitHead = ''data: {"type":"conte''\<close>

definition splitTail :: string where
  \<open>splitTail = ''nt","content":"hi"}'' @ [LF]\<close>

definition earlyDoneStream :: "string list" where
  "earlyDoneStream =
     [contentLine @ [LF], doneLine @ [LF] @ contentLine @ [LF], contentLine @ [LF]]"

definition sampleUser :: User where
  "sampleUser =
     \<lparr> id_user = ''u1'', email = ''ann@example.com'', name_user = ''Ann'', is_active = True,
       created_at_user = ''2024-01-01'', updated_at_user = ''2024-01-01'', last_login_at = None \<rparr>"

definition signedOut :: AuthState where
  "signedOut =
     \<lparr> user = None, isLoading_auth = False, isAuthenticated = False, accessToken = None,
       window = True, session_access_token = None, NEXT_PUBLIC_API_URL = None,
       pushed = [], timeouts = [], fetched = [] \<rparr>"

definition signedIn :: AuthState where
  "signedIn =
     signedOut\<lparr> user := Some sampleUser, isAuthenticated := True,
                accessToken := Some ''tok-1'', session_access_token := Some ''tok-1'' \<rparr>"

definition noOptions :: RequestInit where
  "noOptions = \<lparr> method_init = None, headers = [], body_init = None \<rparr>"

definition unauthorized :: "string \<Rightarrow> RequestInit \<Rightarrow> thrown + Response" where
  \<open>unauthorized url request =
     Inr \<lparr> status = 401, body = Some [Fragment ''{"error":"Unauthorized"}''] \<rparr>\<close>

definition loginGranted :: "string \<Rightarrow> RequestInit \<Rightarrow> thrown + LoginResponse" where
  "loginGranted url request =
     Inr \<lparr> ok_login = True,
           json_login = Inr (Some \<lparr> access_token = Some ''tok-2'', user_data = Some sampleUser,
                                    error_data = None \<rparr>) \<rparr>"

definition loginDenied :: "string \<Rightarrow> RequestInit \<Rightarrow> thrown + LoginResponse" where
  "loginDenied url request =
     Inr \<lparr> ok_login = False,
           json_login = Inr (Some \<lparr> access_token = None, user_data = None,
                                    error_data = Some ''Invalid credentials'' \<rparr>) \<rparr>"

definition loginOffline :: "string \<Rightarrow> RequestInit \<Rightarrow> thrown + LoginResponse" where
  "loginOffline url request = Inl (Error ''Failed to fetch'')"

definition exeFile :: File where
  "exeFile = \<lparr> name_file = ''a.exe'', size_file = 33554432 \<rparr>"

definition pdfAtLimit :: File where
  "pdfAtLimit = \<lparr> name_file = ''brief.PDF'', size_file = 33554432 \<rparr>"

definition pdfOverLimit :: File where
  "pdfOverLimit = \<lparr> name_file = ''brief.pdf'', size_file = 33554433 \<rparr>"

definition emptyCitation :: json where
  "emptyCitation = JObj []"

definition fullCitation :: json where
  "fullCitation =
     JObj [(js ''chunk_id'', JStr (js ''ch-7'')), (js ''content'', JStr (js ''the clause'')),
           (js ''page_number'', JNum 4), (js ''chunk_number'', JNum 2),
           (js ''document_id'', JStr (js ''doc-1'')), (js ''document_name'', JStr (js ''lease.pdf'')),
           (js ''score'', JNum (7 / 8))]"

definition chatAnswer :: json where
  "chatAnswer =
     JObj [(js ''response'', JStr (js ''See the lease.'')),
           (js ''citations'', JArr [fullCitation, emptyCitation]),
           (js ''search_results_count'', JNum 2), (js ''message_id'', JStr (js ''m-9''))]"

definition mappedFull :: Citation where
  "mappedFull =
     \<lparr> chunk_id = JStr (js ''ch-7''), content = JStr (js ''the clause''),
       full_content = JStr (js ''the clause''), page_number = JNum 4,
       chunk_number = JNum 2, document_id = JStr (js ''doc-1''),
       document_name = JStr (js ''lease.pdf''), case_id = JStr (js ''c1''),
       score = JNum (7 / 8), id_citation = JStr (js ''ch-7''),
       documentId = JStr (js ''doc-1''), documentTitle = JStr (js ''lease.pdf''),
       relevantSourceText = JStr (js ''the clause''), page = JNum 4 \<rparr>"

definition mappedEmpty :: Citation where
  "mappedEmpty =
     \<lparr> chunk_id = JStr [], content = JStr [], full_content = JStr [],
       page_number = JNum 1, chunk_number = JNum 0, document_id = JStr [],
       document_name = JStr (js ''Unknown Document''), case_id = JStr (js ''c1''),
       score = JNum 0, id_citation = JStr [], documentId = JStr [],
       documentTitle = JStr (js ''Unknown Document''), relevantSourceText = JStr [],
       page = JNum 1 \<rparr>"

definition mappedAnswer :: ChatResult where
  "mappedAnswer =
     \<lparr> response_result = Some (JStr (js ''See the lease.'')),
       citations_result = [mappedFull, mappedEmpty],
       search_results_count = Some (JNum 2),
       message_id = Some (JStr (js ''m-9'')) \<rparr>"

definition sampleCase :: "string \<Rightarrow> Case" where
  "sampleCase i =
     \<lparr> id_case = i, user_id = ''u1'', title = ''Smith v. Jones'', description = None,
       status_case = active, qdrant_collection_name = None,
       created_at = ''2024-01-01'', updated_at = ''2024-01-02'' \<rparr>"

definition sampleMessage :: ChatMessage where
  "sampleMessage =
     \<lparr> id_message = ''m1'', thread_id = ''c1'', role = user_role,
       content_message = ''hello'', citations = None, created_at_message = ''2024-01-03'' \<rparr>"

definition sampleThread :: ChatThread where
  "sampleThread =
     \<lparr> id_thread = ''t1'', case_id_thread = ''c1'', user_id_thread = ''u1'',
       title_thread = ''thread'', created_at_thread = ''2024-01-01'',
       updated_at_thread = ''2024-01-01'' \<rparr>"

definition busyStore :: AppStore where
  "busyStore =
     initialStore\<lparr> cases := [sampleCase ''c1'', sampleCase ''c2''],
                   currentCase := Some (sampleCase ''c1''),
                   currentThread := Some sampleThread,
                   chatMessages := [sampleMessage],
                   streamingContent := ''partial'' \<rparr>"

section \<open>Properties of the store\<close>

text \<open>
  C5. Whatever the store held before and whatever the argument is (a case or null),
  after \<open>setCurrentCase\<close> the chat transcript is empty, no citation is selected, no
  thread is current, the streaming buffer is the empty string, and the current case is
  the argument.
\<close>

theorem setCurrentCase_resets_chat:
  "chatMessages (setCurrentCase caseItem state) = [] \<and>
   selectedCitation (setCurrentCase caseItem state) = None \<and>
   currentThread (setCurrentCase caseItem state) = None \<and>
   streamingContent (setCurrentCase caseItem state) = '''' \<and>
   currentCase (setCurrentCase caseItem state) = caseItem"
  by (simp add: setCurrentCase_def)

text \<open>
  C6. \<open>removeCase caseId\<close> keeps exactly the cases whose id differs from \<open>caseId\<close>, in
  their order, so none with that id remains. When \<open>caseId\<close> is the id of the current
  case, the current case and thread become null and the transcript becomes empty; when
  it is not (or no case is current), all three are as they were.
\<close>

theorem removeCase_frame:
  "cases (removeCase caseId state) = filter (\<lambda>c. id_case c \<noteq> caseId) (cases state) \<and>
   (\<forall>c \<in> set (cases (removeCase caseId state)). id_case c \<noteq> caseId) \<and>
   (isCurrentCase state caseId \<longrightarrow>
      currentCase (removeCase caseId state) = None \<and>
      currentThread (removeCase caseId state) = None \<and>
      chatMessages (removeCase caseId state) = []) \<and>
   (\<not> isCurrentCase state caseId \<longrightarrow>
      currentCase (removeCase caseId state) = currentCase state \<and>
      currentThread (removeCase caseId state) = currentThread state \<and>
      chatMessages (removeCase caseId state) = chatMessages state)"
  by (simp add: removeCase_def)

theorem removeCase_frame_witness:
  "isCurrentCase busyStore ''c1'' \<and> \<not> isCurrentCase busyStore ''c2'' \<and>
   cases (removeCase ''c1'' busyStore) = [sampleCase ''c2''] \<and>
   currentCase (removeCase ''c1'' busyStore) = None \<and>
   currentThread (removeCase ''c1'' busyStore) = None \<and>
   chatMessages (removeCase ''c1'' busyStore) = [] \<and>
   cases (removeCase ''c2'' busyStore) = [sampleCase ''c1''] \<and>
   currentCase (removeCase ''c2'' busyStore) = Some (sampleCase ''c1'') \<and>
   currentThread (removeCase ''c2'' busyStore) = Some sampleThread \<and>
   chatMessages (removeCase ''c2'' busyStore) = [sampleMessage]"
  using removeCase_frame [of "''c1''" busyStore] removeCase_frame [of "''c2''" busyStore]
  by (simp add: isCurrentCase_def busyStore_def initialStore_def sampleCase_def)

section \<open>Properties of the streaming chat consumer\<close>

subsection \<open>Splitting and the loop over lines\<close>



text \<open>Lines that do not end the function are passed over: the loop goes on behind them.\<close>

lemma processLines_append:
  "processLines parse pre = (es, False) \<Longrightarrow>
   processLines parse (pre @ rest) =
     (es @ fst (processLines parse rest), snd (processLines parse rest))"
proof (induction pre arbitrary: es)
  case Nil
  then show ?case by simp
next
  case (Cons line pre)
  then show ?case
    by (auto simp: Let_def split: if_splits option.splits sum.splits prod.splits)
qed

lemma processLines_terminal:
  assumes "startsWith line ''data: ''" and "trim (drop 6 line) \<noteq> []"
    and "parse (drop 6 line) = Some ev" and "getProp ev (js ''type'') = Inr t"
    and "isTerminalType t"
  shows "processLines parse (line # post) = ([OnChunk ev, OnComplete], True)"
  using assms by simp

text \<open>\<open>onComplete\<close> is called inside the loop over lines only together with the return.\<close>

lemma processLines_open:
  "processLines parse ls = (es, False) \<Longrightarrow> OnComplete \<notin> set es"
proof (induction ls arbitrary: es)
  case Nil
  then show ?case by simp
next
  case (Cons line ls)
  then show ?case
    by (auto simp: Let_def split: if_splits option.splits sum.splits prod.splits)
qed

lemma fragmentEffects_open:
  assumes "\<not> fragmentReturns parse f"
  shows "OnComplete \<notin> set (fragmentEffects parse f)"
proof -
  obtain es where f: "processLines parse (splitOn LF f) = (es, False)"
    using assms by (cases "processLines parse (splitOn LF f)") (simp add: fragmentReturns_def)
  then show ?thesis
    using processLines_open [OF f] by (simp add: fragmentEffects_def)
qed

lemma readLoop_prefix:
  "\<forall>f \<in> set before. \<not> fragmentReturns parse f \<Longrightarrow>
   readLoop parse (map Fragment before @ rest) =
     (concat (map (fragmentEffects parse) before) @ fst (readLoop parse rest),
      snd (readLoop parse rest))"
proof (induction before)
  case Nil
  then show ?case by simp
next
  case (Cons f before)
  obtain es where f: "processLines parse (splitOn LF f) = (es, False)"
    using Cons.prems by (cases "processLines parse (splitOn LF f)") (simp add: fragmentReturns_def)
  have "readLoop parse (map Fragment before @ rest) =
      (concat (map (fragmentEffects parse) before) @ fst (readLoop parse rest),
       snd (readLoop parse rest))"
    using Cons by simp
  moreover have "fragmentEffects parse f = ReaderRead # es"
    using f by (simp add: fragmentEffects_def)
  ultimately show ?case
    using f by simp
qed

subsection \<open>The lines of the examples\<close>

lemma parse_doneLine: "JSON_parse (drop 6 doneLine) = Some doneEvent"
  by code_simp

lemma parse_contentLine: "JSON_parse (drop 6 contentLine) = Some contentEvent"
  by code_simp



subsection \<open>Two fragments, a content event and a done event\<close>

text \<open>
  C1, as stated, fails. The claim reads: given the body in exactly the two fragments
  \<open>data: {"type":"content","content":"hi"}\n\<close> and \<open>data: {"type":"done"}\n\<close>,
  \<open>onChunk\<close> is invoked exactly once, with the content event only, and never for the
  done event. On this input the code calls \<open>onChunk\<close> twice, the second time with the
  done event: \<open>onChunk(parsedData)\<close> stands before the test of \<open>parsedData.type\<close>.
\<close>

theorem done_event_reaches_onChunk:
  "onChunkCalls (fst (streamChatWithDocuments JSON_parse
                        (sseResponse [contentLine @ [LF], doneLine @ [LF]]))) =
     [contentEvent, doneEvent] \<and>
   onChunkCalls (fst (streamChatWithDocuments JSON_parse
                        (sseResponse [contentLine @ [LF], doneLine @ [LF]]))) \<noteq>
     [contentEvent]"
  by code_simp

text \<open>
  C1, amended. Given the body in exactly these two fragments, the function reads the
  first fragment and calls \<open>onChunk\<close> with the content event, reads the second and calls
  \<open>onChunk\<close> with the done event, then calls \<open>onComplete\<close>, and does nothing more: two
  \<open>onChunk\<close> calls, one \<open>onComplete\<close> call, no \<open>onError\<close> call, and the promise resolves.
\<close>

theorem two_fragments_effects:
  "streamChatWithDocuments JSON_parse (sseResponse [contentLine @ [LF], doneLine @ [LF]]) =
     ([ReaderRead, OnChunk contentEvent, ReaderRead, OnChunk doneEvent, OnComplete], Inr ()) \<and>
   onCompleteCalls (fst (streamChatWithDocuments JSON_parse
                           (sseResponse [contentLine @ [LF], doneLine @ [LF]]))) = 1 \<and>
   onErrorCalls (fst (streamChatWithDocuments JSON_parse
                        (sseResponse [contentLine @ [LF], doneLine @ [LF]]))) = 0"
  by code_simp

subsection \<open>A line split across two fragments\<close>

text \<open>
  C2. There is a well-formed \<open>data: \<close> line which, delivered whole with its newline in
  one fragment, gives one \<open>onChunk\<close> call with its event, and which, delivered in two
  non-empty fragments, gives no \<open>onChunk\<close> call at all. The instance is the content line
  cut after \<open>data: {"type":"conte\<close>: each fragment is split on newlines by itself, the
  first half does not parse and the second half does not start with \<open>data: \<close>.
\<close>

theorem split_line_is_lost:
  "\<exists>line f1 f2 ev.
      f1 @ f2 = line @ [LF] \<and> f1 \<noteq> [] \<and> f2 \<noteq> [] \<and>
      startsWith line ''data: '' \<and> LF \<notin> set line \<and>
      JSON_parse (drop 6 line) = Some ev \<and>
      onChunkCalls (fst (streamChatWithDocuments JSON_parse (sseResponse [line @ [LF]]))) = [ev] \<and>
      onChunkCalls (fst (streamChatWithDocuments JSON_parse (sseResponse [f1, f2]))) = []"
proof (intro exI conjI)
  show "splitHead @ splitTail = contentLine @ [LF]" by code_simp
  show "splitHead \<noteq> []" by code_simp
  show "splitTail \<noteq> []" by code_simp
  show "startsWith contentLine ''data: ''" by code_simp
  show "LF \<notin> set contentLine" by code_simp
  show "JSON_parse (drop 6 contentLine) = Some contentEvent" by (rule parse_contentLine)
  show "onChunkCalls (fst (streamChatWithDocuments JSON_parse (sseResponse [contentLine @ [LF]]))) =
      [contentEvent]"
    by code_simp
  show "onChunkCalls (fst (streamChatWithDocuments JSON_parse (sseResponse [splitHead, splitTail]))) = []"
    by code_simp
qed

subsection \<open>A done or error event ends the stream\<close>

text \<open>
  C3. Let the body deliver the fragments \<open>before\<close>, none of which makes the function
  return, and then \<open>chunk\<close>, whose lines are \<open>pre\<close>, \<open>line\<close> and \<open>post\<close>, where the lines
  \<open>pre\<close> do not make it return and \<open>line\<close> is a \<open>data: \<close> line whose payload parses to
  an event \<open>ev\<close> with type \<open>done\<close> or \<open>error\<close>. Then the function calls \<open>onChunk\<close> with
  \<open>ev\<close>, calls \<open>onComplete\<close> and is finished: the run is the same whatever the later
  lines \<open>post\<close> and the later fragments \<open>after\<close> are, it contains no read and no
  callback after that \<open>onComplete\<close>, and no \<open>onComplete\<close> before it.
\<close>

theorem terminal_event_ends_stream:
  assumes "ok response"
    and "body response = Some (map Fragment before @ Fragment chunk # after)"
    and "\<forall>f \<in> set before. \<not> fragmentReturns parse f"
    and "splitOn LF chunk = pre @ line # post"
    and "processLines parse pre = (es, False)"
    and "startsWith line ''data: ''" and "trim (drop 6 line) \<noteq> []"
    and "parse (drop 6 line) = Some ev" and "getProp ev (js ''type'') = Inr t"
    and "isTerminalType t"
  shows "streamChatWithDocuments parse (Some (Inr response)) =
           (concat (map (fragmentEffects parse) before) @ ReaderRead # es @ [OnChunk ev, OnComplete],
            Inr ()) \<and>
         OnComplete \<notin> set (concat (map (fragmentEffects parse) before) @ ReaderRead # es @ [OnChunk ev])"
proof -
  have lines: "processLines parse (splitOn LF chunk) = (es @ [OnChunk ev, OnComplete], True)"
    using assms(4) processLines_append [OF assms(5), of "line # post"]
      processLines_terminal [where parse = parse and line = line and ev = ev and t = t and post = post]
      assms(6-10)
    by simp
  have here: "readLoop parse (Fragment chunk # after) = (ReaderRead # es @ [OnChunk ev, OnComplete], None)"
    using lines by simp
  have loop: "readLoop parse (map Fragment before @ Fragment chunk # after) =
      (concat (map (fragmentEffects parse) before) @ ReaderRead # es @ [OnChunk ev, OnComplete], None)"
    using readLoop_prefix [OF assms(3), of "Fragment chunk # after"] here by simp
  have run: "streamChatWithDocuments parse (Some (Inr response)) =
      (concat (map (fragmentEffects parse) before) @ ReaderRead # es @ [OnChunk ev, OnComplete], Inr ())"
    using assms(1,2) loop by (simp add: streamChatWithDocuments_def streamBody_def)
  have "OnComplete \<notin> set es"
    using processLines_open [OF assms(5)] .
  moreover have "OnComplete \<notin> set (concat (map (fragmentEffects parse) before))"
    using assms(3) fragmentEffects_open by auto
  ultimately show ?thesis
    using run by simp
qed

text \<open>
  The instance: a content fragment, then a fragment with the done line followed by a
  content line, then one more content fragment. Only the first content event is delivered.
\<close>

theorem terminal_event_ends_stream_witness:
  "ok \<lparr> status = 200, body = Some (map Fragment earlyDoneStream) \<rparr> \<and>
   earlyDoneStream = [contentLine @ [LF]] @ (doneLine @ [LF] @ contentLine @ [LF]) # [contentLine @ [LF]] \<and>
   \<not> fragmentReturns JSON_parse (contentLine @ [LF]) \<and>
   splitOn LF (doneLine @ [LF] @ contentLine @ [LF]) = [] @ doneLine # [contentLine, []] \<and>
   processLines JSON_parse [] = ([], False) \<and>
   startsWith doneLine ''data: '' \<and> trim (drop 6 doneLine) \<noteq> [] \<and>
   JSON_parse (drop 6 doneLine) = Some doneEvent \<and>
   getProp doneEvent (js ''type'') = Inr (Some (JStr (js ''done''))) \<and>
   isTerminalType (Some (JStr (js ''done''))) \<and>
   streamChatWithDocuments JSON_parse (sseResponse earlyDoneStream) =
     ([ReaderRead, OnChunk contentEvent, ReaderRead, OnChunk doneEvent, OnComplete], Inr ())"
proof -
  let ?r = "\<lparr> status = 200, body = Some (map Fragment earlyDoneStream) \<rparr>"
  have h1: "ok ?r" by (simp add: ok_def)
  have shape: "earlyDoneStream =
      [contentLine @ [LF]] @ (doneLine @ [LF] @ contentLine @ [LF]) # [contentLine @ [LF]]"
    by (simp add: earlyDoneStream_def)
  have h2: "body ?r = Some (map Fragment [contentLine @ [LF]] @
      Fragment (doneLine @ [LF] @ contentLine @ [LF]) # map Fragment [contentLine @ [LF]])"
    by (simp add: earlyDoneStream_def)
  have h3': "\<not> fragmentReturns JSON_parse (contentLine @ [LF])"
    by code_simp
  then have h3: "\<forall>f \<in> set [contentLine @ [LF]]. \<not> fragmentReturns JSON_parse f"
    by simp
  have h4: "splitOn LF (doneLine @ [LF] @ contentLine @ [LF]) = [] @ doneLine # [contentLine, []]"
    by code_simp
  have h5: "processLines JSON_parse [] = ([], False)" by simp
  have h6: "startsWith doneLine ''data: ''" by code_simp
  have h7: "trim (drop 6 doneLine) \<noteq> []" by code_simp
  have h8: "JSON_parse (drop 6 doneLine) = Some doneEvent" by (rule parse_doneLine)
  have h9: "getProp doneEvent (js ''type'') = Inr (Some (JStr (js ''done'')))" by code_simp
  have h10: "isTerminalType (Some (JStr (js ''done'')))" by (simp add: isTerminalType_def)
  have first: "fragmentEffects JSON_parse (contentLine @ [LF]) = [ReaderRead, OnChunk contentEvent]"
    by code_simp
  have "streamChatWithDocuments JSON_parse (Some (Inr ?r)) =
      ([ReaderRead, OnChunk contentEvent, ReaderRead, OnChunk doneEvent, OnComplete], Inr ())"
    using terminal_event_ends_stream [OF h1 h2 h3 h4 h5 h6 h7 h8 h9 h10] first by simp
  then have run: "streamChatWithDocuments JSON_parse (sseResponse earlyDoneStream) =
      ([ReaderRead, OnChunk contentEvent, ReaderRead, OnChunk doneEvent, OnComplete], Inr ())"
    by (simp add: sseResponse_def)
  show ?thesis
    using h1 shape h3' h4 h5 h6 h7 h8 h9 h10 run by simp
qed

subsection \<open>A malformed payload before the done line\<close>



section \<open>Properties of the HTTP client wrapper and of login\<close>

text \<open>
  C4, as stated, fails. The claim reads: for every request whose URL is not a login or
  logout endpoint, a 401 from the backend triggers logout and the made-up response is
  returned. The URL \<open>/api/cases/loginfo\<close> (what \<open>getCase\<close> requests for the case id
  \<open>loginfo\<close>) is neither \<open>/api/auth/login\<close> nor \<open>/api/auth/logout\<close>, yet it contains
  \<open>/login\<close>, which is what the code tests: the backend's 401 is handed back as it is,
  the token stays, the session stays authenticated and nothing navigates to \<open>/login\<close>.
\<close>

theorem unauthorized_loginfo_passes_through:
  \<open>''/api/cases/loginfo'' \<noteq> ''/api/auth/login'' \<and>
   ''/api/cases/loginfo'' \<noteq> ''/api/auth/logout'' \<and>
   fst (apiRequest unauthorized ''/api/cases/loginfo'' noOptions signedIn) =
     Inr \<lparr> status = 401, body = Some [Fragment ''{"error":"Unauthorized"}''] \<rparr> \<and>
   fst (apiRequest unauthorized ''/api/cases/loginfo'' noOptions signedIn) \<noteq>
     Inr \<lparr> status = 401, body = Some [Fragment ''{"error":"Session expired"}''] \<rparr> \<and>
   accessToken (snd (apiRequest unauthorized ''/api/cases/loginfo'' noOptions signedIn)) =
     Some ''tok-1'' \<and>
   getStoredToken (snd (apiRequest unauthorized ''/api/cases/loginfo'' noOptions signedIn)) =
     Some ''tok-1'' \<and>
   isAuthenticated (snd (apiRequest unauthorized ''/api/cases/loginfo'' noOptions signedIn)) \<and>
   pushed (snd (apiRequest unauthorized ''/api/cases/loginfo'' noOptions signedIn)) = []\<close>
proof -
  have y: "includesStr ''/api/cases/loginfo'' ''/login''"
    by code_simp
  have run: "apiRequest unauthorized ''/api/cases/loginfo'' noOptions signedIn =
      (unauthorized (apiUrl signedIn @ ''/api/cases/loginfo'')
         (noOptions\<lparr> headers := requestHeaders signedIn noOptions \<rparr>),
       signedIn\<lparr> fetched := fetched signedIn @
         [(apiUrl signedIn @ ''/api/cases/loginfo'',
           noOptions\<lparr> headers := requestHeaders signedIn noOptions \<rparr>)] \<rparr>)"
    using y by (simp add: apiRequest_def Let_def unauthorized_def)
  show ?thesis
    unfolding run
    by (simp add: unauthorized_def signedIn_def signedOut_def getStoredToken_def)
qed

text \<open>
  C4, amended. Let the backend answer a request issued through \<open>apiRequest\<close> with status
  401. When the URL contains neither \<open>/login\<close> nor \<open>/logout\<close>, the wrapper runs
  \<open>logout\<close> (afterwards no token is in memory or in the per-tab storage, no user is set,
  the session is not authenticated and the last navigation is to \<open>/login\<close>) and returns,
  instead of the backend's response, a response with status 401 and body
  \<open>{"error":"Session expired"}\<close>. When the URL contains \<open>/login\<close> or \<open>/logout\<close>
  anywhere, it returns the backend's response as it is, and token, user, authentication
  flag and navigations are as before: the only request made is the one asked for.
\<close>

theorem apiRequest_unauthorized:
  assumes "fetch (apiUrl s @ url) (options\<lparr> headers := requestHeaders s options \<rparr>) = Inr response"
    and "status response = 401"
  shows \<open>(\<not> includesStr url ''/logout'' \<and> \<not> includesStr url ''/login'' \<longrightarrow>
            fst (apiRequest fetch url options s) =
              Inr \<lparr> status = 401, body = Some [Fragment ''{"error":"Session expired"}''] \<rparr> \<and>
            snd (apiRequest fetch url options s) =
              logout (s\<lparr> fetched := fetched s @
                         [(apiUrl s @ url, options\<lparr> headers := requestHeaders s options \<rparr>)] \<rparr>) \<and>
            accessToken (snd (apiRequest fetch url options s)) = None \<and>
            getStoredToken (snd (apiRequest fetch url options s)) = None \<and>
            user (snd (apiRequest fetch url options s)) = None \<and>
            \<not> isAuthenticated (snd (apiRequest fetch url options s)) \<and>
            pushed (snd (apiRequest fetch url options s)) = pushed s @ [''/login'']) \<and>
         (includesStr url ''/logout'' \<or> includesStr url ''/login'' \<longrightarrow>
            fst (apiRequest fetch url options s) = Inr response \<and>
            accessToken (snd (apiRequest fetch url options s)) = accessToken s \<and>
            session_access_token (snd (apiRequest fetch url options s)) = session_access_token s \<and>
            user (snd (apiRequest fetch url options s)) = user s \<and>
            isAuthenticated (snd (apiRequest fetch url options s)) = isAuthenticated s \<and>
            pushed (snd (apiRequest fetch url options s)) = pushed s \<and>
            fetched (snd (apiRequest fetch url options s)) =
              fetched s @ [(apiUrl s @ url, options\<lparr> headers := requestHeaders s options \<rparr>)])\<close>
  using assms
  by (auto simp: apiRequest_def Let_def logout_def removeToken_def getStoredToken_def
      sessionExpired_def)

text \<open>
  The instance: a signed-in session whose request to \<open>/api/cases\<close> is answered with 401
  is logged out and gets the response with status 401 and body
  \<open>{"error":"Session expired"}\<close>; the same answer to \<open>/api/auth/login\<close> and to
  \<open>/api/auth/logout\<close> is handed back unchanged.
\<close>

theorem apiRequest_unauthorized_witness:
  \<open>unauthorized (apiUrl signedIn @ ''/api/cases'')
      (noOptions\<lparr> headers := requestHeaders signedIn noOptions \<rparr>) =
      Inr \<lparr> status = 401, body = Some [Fragment ''{"error":"Unauthorized"}''] \<rparr> \<and>
    status \<lparr> status = 401, body = Some [Fragment ''{"error":"Unauthorized"}''] \<rparr> = 401 \<and>
    \<not> includesStr ''/api/cases'' ''/logout'' \<and> \<not> includesStr ''/api/cases'' ''/login'' \<and>
    fst (apiRequest unauthorized ''/api/cases'' noOptions signedIn) =
      Inr \<lparr> status = 401, body = Some [Fragment ''{"error":"Session expired"}''] \<rparr> \<and>
    accessToken (snd (apiRequest unauthorized ''/api/cases'' noOptions signedIn)) = None \<and>
    getStoredToken (snd (apiRequest unauthorized ''/api/cases'' noOptions signedIn)) = None \<and>
    user (snd (apiRequest unauthorized ''/api/cases'' noOptions signedIn)) = None \<and>
    \<not> isAuthenticated (snd (apiRequest unauthorized ''/api/cases'' noOptions signedIn)) \<and>
    pushed (snd (apiRequest unauthorized ''/api/cases'' noOptions signedIn)) = [''/login''] \<and>
    includesStr ''/api/auth/login'' ''/login'' \<and>
    fst (apiRequest unauthorized ''/api/auth/login'' noOptions signedIn) =
      Inr \<lparr> status = 401, body = Some [Fragment ''{"error":"Unauthorized"}''] \<rparr> \<and>
    accessToken (snd (apiRequest unauthorized ''/api/auth/login'' noOptions signedIn)) = Some ''tok-1'' \<and>
    isAuthenticated (snd (apiRequest unauthorized ''/api/auth/login'' noOptions signedIn)) \<and>
    pushed (snd (apiRequest unauthorized ''/api/auth/login'' noOptions signedIn)) = [] \<and>
    includesStr ''/api/auth/logout'' ''/logout'' \<and>
    fst (apiRequest unauthorized ''/api/auth/logout'' noOptions signedIn) =
      Inr \<lparr> status = 401, body = Some [Fragment ''{"error":"Unauthorized"}''] \<rparr> \<and>
    accessToken (snd (apiRequest unauthorized ''/api/auth/logout'' noOptions signedIn)) = Some ''tok-1'' \<and>
    pushed (snd (apiRequest unauthorized ''/api/auth/logout'' noOptions signedIn)) = []\<close>
proof -
  have a: \<open>unauthorized u r = Inr \<lparr> status = 401, body = Some [Fragment ''{"error":"Unauthorized"}''] \<rparr>\<close> for u r
    by (simp add: unauthorized_def)
  have s: \<open>status \<lparr> status = 401, body = Some [Fragment ''{"error":"Unauthorized"}''] \<rparr> = 401\<close>
    by simp
  have n1: "\<not> includesStr ''/api/cases'' ''/logout''" by code_simp
  have n2: "\<not> includesStr ''/api/cases'' ''/login''" by code_simp
  have y1: "includesStr ''/api/auth/login'' ''/login''" by code_simp
  have y2: "includesStr ''/api/auth/logout'' ''/logout''" by code_simp
  have p: "pushed signedIn = []" and t: "accessToken signedIn = Some ''tok-1''"
    and i: "isAuthenticated signedIn"
    by (simp_all add: signedIn_def signedOut_def)
  have other: \<open>fst (apiRequest unauthorized ''/api/cases'' noOptions signedIn) =
      Inr \<lparr> status = 401, body = Some [Fragment ''{"error":"Session expired"}''] \<rparr> \<and>
    accessToken (snd (apiRequest unauthorized ''/api/cases'' noOptions signedIn)) = None \<and>
    getStoredToken (snd (apiRequest unauthorized ''/api/cases'' noOptions signedIn)) = None \<and>
    user (snd (apiRequest unauthorized ''/api/cases'' noOptions signedIn)) = None \<and>
    \<not> isAuthenticated (snd (apiRequest unauthorized ''/api/cases'' noOptions signedIn)) \<and>
    pushed (snd (apiRequest unauthorized ''/api/cases'' noOptions signedIn)) = pushed signedIn @ [''/login'']\<close>
    using apiRequest_unauthorized [where fetch = unauthorized and s = signedIn
          and url = "''/api/cases''" and options = noOptions, OF a s,
          THEN conjunct1, THEN mp, OF conjI [OF n1 n2]]
    by (elim conjE) (intro conjI, assumption+)
  have auth: \<open>fst (apiRequest unauthorized ''/api/auth/login'' noOptions signedIn) =
      Inr \<lparr> status = 401, body = Some [Fragment ''{"error":"Unauthorized"}''] \<rparr> \<and>
    accessToken (snd (apiRequest unauthorized ''/api/auth/login'' noOptions signedIn)) = accessToken signedIn \<and>
    isAuthenticated (snd (apiRequest unauthorized ''/api/auth/login'' noOptions signedIn)) = isAuthenticated signedIn \<and>
    pushed (snd (apiRequest unauthorized ''/api/auth/login'' noOptions signedIn)) = pushed signedIn\<close>
    using apiRequest_unauthorized [where fetch = unauthorized and s = signedIn
          and url = "''/api/auth/login''" and options = noOptions, OF a s,
          THEN conjunct2, THEN mp, OF disjI2 [OF y1]]
    by (elim conjE) (intro conjI, assumption+)
  have out: \<open>fst (apiRequest unauthorized ''/api/auth/logout'' noOptions signedIn) =
      Inr \<lparr> status = 401, body = Some [Fragment ''{"error":"Unauthorized"}''] \<rparr> \<and>
    accessToken (snd (apiRequest unauthorized ''/api/auth/logout'' noOptions signedIn)) = accessToken signedIn \<and>
    pushed (snd (apiRequest unauthorized ''/api/auth/logout'' noOptions signedIn)) = pushed signedIn\<close>
    using apiRequest_unauthorized [where fetch = unauthorized and s = signedIn
          and url = "''/api/auth/logout''" and options = noOptions, OF a s,
          THEN conjunct2, THEN mp, OF disjI1 [OF y2]]
    by (elim conjE) (intro conjI, assumption+)
  show ?thesis
    using other auth out n1 n2 y1 y2 a p t i by simp
qed

text \<open>A login attempt is accepted exactly when the answer carries a non-empty token.\<close>

lemma loginAccepted_iff:
  "loginAccepted answer \<longleftrightarrow>
     (\<exists>response data tok. answer = Inr response \<and> ok_login response \<and>
        json_login response = Inr (Some data) \<and> access_token data = Some tok \<and> tok \<noteq> [])"
proof (cases answer)
  case (Inl e)
  then show ?thesis by (simp add: loginAccepted_def)
next
  case (Inr response)
  show ?thesis
  proof (cases "json_login response")
    case (Inl e)
    with Inr show ?thesis by (simp add: loginAccepted_def)
  next
    case r: (Inr d)
    show ?thesis
    proof (cases d)
      case None
      with Inr r show ?thesis by (simp add: loginAccepted_def)
    next
      case (Some data)
      with Inr r show ?thesis
        by (cases "access_token data") (auto simp: loginAccepted_def)
    qed
  qed
qed

text \<open>
  C8. When the login request is answered with a success status and JSON data whose
  access token is a non-empty string, \<open>login\<close> reports success, the session is
  authenticated, the token is in memory and, in a browser (\<open>window\<close> is defined), in the
  per-tab storage, and the user is the one of the answer. In every other case (a failure
  status, no token, a body that is not JSON or is \<open>null\<close>, an exception from \<open>fetch\<close>)
  \<open>login\<close> returns a result with \<open>success\<close> false and an error message, and the token
  in memory, the stored token, the user and the authentication flag are as before. The
  result is a value in both cases: no exception leaves \<open>login\<close>.
\<close>

theorem login_outcome:
  "(\<forall>response data tok.
      fetch (apiUrl s @ ''/api/auth/login'') (loginRequest em pw) = Inr response \<and>
      ok_login response \<and> json_login response = Inr (Some data) \<and>
      access_token data = Some tok \<and> tok \<noteq> [] \<longrightarrow>
        success (fst (login fetch em pw s)) \<and>
        isAuthenticated (snd (login fetch em pw s)) \<and>
        accessToken (snd (login fetch em pw s)) = Some tok \<and>
        user (snd (login fetch em pw s)) = user_data data \<and>
        (window s \<longrightarrow> getStoredToken (snd (login fetch em pw s)) = Some tok)) \<and>
   (\<not> loginAccepted (fetch (apiUrl s @ ''/api/auth/login'') (loginRequest em pw)) \<longrightarrow>
      \<not> success (fst (login fetch em pw s)) \<and>
      error_result (fst (login fetch em pw s)) \<noteq> None \<and>
      accessToken (snd (login fetch em pw s)) = accessToken s \<and>
      session_access_token (snd (login fetch em pw s)) = session_access_token s \<and>
      user (snd (login fetch em pw s)) = user s \<and>
      isAuthenticated (snd (login fetch em pw s)) = isAuthenticated s)"
proof (intro conjI allI impI)
  fix response data tok
  assume a: "fetch (apiUrl s @ ''/api/auth/login'') (loginRequest em pw) = Inr response \<and>
      ok_login response \<and> json_login response = Inr (Some data) \<and>
      access_token data = Some tok \<and> tok \<noteq> []"
  then have run: "login fetch em pw s =
      (\<lparr> success = True, error_result = None, user_result = user_data data \<rparr>,
       (storeToken tok (s\<lparr> isLoading_auth := True,
            fetched := fetched s @ [(apiUrl s @ ''/api/auth/login'', loginRequest em pw)] \<rparr>))
         \<lparr> user := user_data data, isAuthenticated := True,
           timeouts := timeouts s @ [(100, ''/'')], isLoading_auth := False \<rparr>)"
    by (simp add: login_def loginAttempt_def Let_def orStr_def storeToken_def)
  show "success (fst (login fetch em pw s))" by (simp add: run)
  show "isAuthenticated (snd (login fetch em pw s))" by (simp add: run)
  show "accessToken (snd (login fetch em pw s)) = Some tok" by (simp add: run storeToken_def)
  show "user (snd (login fetch em pw s)) = user_data data" by (simp add: run)
  show "getStoredToken (snd (login fetch em pw s)) = Some tok" if "window s"
    using that by (simp add: run storeToken_def getStoredToken_def)
next
  assume n: "\<not> loginAccepted (fetch (apiUrl s @ ''/api/auth/login'') (loginRequest em pw))"
  define s1 where "s1 = s\<lparr> isLoading_auth := True,
      fetched := fetched s @ [(apiUrl s @ ''/api/auth/login'', loginRequest em pw)] \<rparr>"
  have "\<exists>msg. loginAttempt fetch em pw s =
      (\<lparr> success = False, error_result = Some msg, user_result = None \<rparr>, s1)"
    using n
    by (auto simp: loginAttempt_def loginAccepted_def Let_def s1_def networkError_def
        split: sum.splits option.splits)
  then obtain msg where run: "login fetch em pw s =
      (\<lparr> success = False, error_result = Some msg, user_result = None \<rparr>, s1\<lparr> isLoading_auth := False \<rparr>)"
    by (auto simp: login_def)
  show "\<not> success (fst (login fetch em pw s))" by (simp add: run)
  show "error_result (fst (login fetch em pw s)) \<noteq> None" by (simp add: run)
  show "accessToken (snd (login fetch em pw s)) = accessToken s" by (simp add: run s1_def)
  show "session_access_token (snd (login fetch em pw s)) = session_access_token s" by (simp add: run s1_def)
  show "user (snd (login fetch em pw s)) = user s" by (simp add: run s1_def)
  show "isAuthenticated (snd (login fetch em pw s)) = isAuthenticated s" by (simp add: run s1_def)
qed

text \<open>
  The instances: an accepted login, a login refused by the backend, and a network failure.
\<close>

theorem login_outcome_witness:
  "loginGranted (apiUrl signedOut @ ''/api/auth/login'') (loginRequest ''ann@example.com'' ''pw'') =
     Inr \<lparr> ok_login = True,
           json_login = Inr (Some \<lparr> access_token = Some ''tok-2'', user_data = Some sampleUser,
                                    error_data = None \<rparr>) \<rparr> \<and>
   window signedOut \<and>
   success (fst (login loginGranted ''ann@example.com'' ''pw'' signedOut)) \<and>
   isAuthenticated (snd (login loginGranted ''ann@example.com'' ''pw'' signedOut)) \<and>
   accessToken (snd (login loginGranted ''ann@example.com'' ''pw'' signedOut)) = Some ''tok-2'' \<and>
   getStoredToken (snd (login loginGranted ''ann@example.com'' ''pw'' signedOut)) = Some ''tok-2'' \<and>
   \<not> loginAccepted (loginDenied (apiUrl signedOut @ ''/api/auth/login'') (loginRequest ''ann@example.com'' ''pw'')) \<and>
   \<not> success (fst (login loginDenied ''ann@example.com'' ''pw'' signedOut)) \<and>
   accessToken (snd (login loginDenied ''ann@example.com'' ''pw'' signedOut)) = None \<and>
   \<not> isAuthenticated (snd (login loginDenied ''ann@example.com'' ''pw'' signedOut)) \<and>
   \<not> loginAccepted (loginOffline (apiUrl signedOut @ ''/api/auth/login'') (loginRequest ''ann@example.com'' ''pw'')) \<and>
   \<not> success (fst (login loginOffline ''ann@example.com'' ''pw'' signedOut)) \<and>
   accessToken (snd (login loginOffline ''ann@example.com'' ''pw'' signedOut)) = None"
proof -
  let ?em = "''ann@example.com''" and ?pw = "''pw''"
  have g: "loginGranted (apiUrl signedOut @ ''/api/auth/login'') (loginRequest ?em ?pw) =
     Inr \<lparr> ok_login = True,
           json_login = Inr (Some \<lparr> access_token = Some ''tok-2'', user_data = Some sampleUser,
                                    error_data = None \<rparr>) \<rparr>"
    by (simp add: loginGranted_def)
  have d: "\<not> loginAccepted (loginDenied (apiUrl signedOut @ ''/api/auth/login'') (loginRequest ?em ?pw))"
    by (simp add: loginDenied_def loginAccepted_def)
  have f: "\<not> loginAccepted (loginOffline (apiUrl signedOut @ ''/api/auth/login'') (loginRequest ?em ?pw))"
    by (simp add: loginOffline_def loginAccepted_def)
  have w: "window signedOut" and t: "accessToken signedOut = None" and i: "\<not> isAuthenticated signedOut"
    by (simp_all add: signedOut_def)
  have granted: "success (fst (login loginGranted ?em ?pw signedOut)) \<and>
      isAuthenticated (snd (login loginGranted ?em ?pw signedOut)) \<and>
      accessToken (snd (login loginGranted ?em ?pw signedOut)) = Some ''tok-2'' \<and>
      getStoredToken (snd (login loginGranted ?em ?pw signedOut)) = Some ''tok-2''"
    using login_outcome [of loginGranted signedOut ?em ?pw] g w by simp
  have denied: "\<not> success (fst (login loginDenied ?em ?pw signedOut)) \<and>
      accessToken (snd (login loginDenied ?em ?pw signedOut)) = accessToken signedOut \<and>
      isAuthenticated (snd (login loginDenied ?em ?pw signedOut)) = isAuthenticated signedOut"
    using login_outcome [of loginDenied signedOut ?em ?pw] d by blast
  have offline: "\<not> success (fst (login loginOffline ?em ?pw signedOut)) \<and>
      accessToken (snd (login loginOffline ?em ?pw signedOut)) = accessToken signedOut"
    using login_outcome [of loginOffline signedOut ?em ?pw] f by blast
  show ?thesis
    using g w granted denied offline d f t i by simp
qed

section \<open>Properties of upload validation\<close>

lemma includesStr_prefix: "includesStr (p @ b) p"
proof (cases "p @ b")
  case Nil
  then show ?thesis by simp
next
  case (Cons c s)
  have "startsWith (p @ b) p"
    by (simp add: startsWith_def)
  then show ?thesis
    unfolding Cons by simp
qed

lemma includesStr_infix: "includesStr (a @ p @ b) p"
proof (induction a)
  case Nil
  show ?case using includesStr_prefix by simp
next
  case (Cons c a)
  then show ?case by simp
qed

text \<open>
  C9, as stated, fails. The claim reads: every file whose size is exactly
  \<open>maxFileSizeMB * 1024 * 1024\<close> bytes is accepted (\<open>validateFile\<close> returns null). The
  file \<open>a.exe\<close> of exactly 32 MB, under the default configuration and the default
  accepted formats, is rejected: the check of the extension follows the check of the size.
\<close>

theorem unsupported_file_at_limit_rejected:
  \<open>size_file exeFile = maxFileSizeMB defaultConfig * 1024 * 1024 \<and>
   validateFile defaultConfig wholeMB defaultAccept exeFile =
     Some ''File "a.exe" has an unsupported format. Accepted formats: .pdf,.doc,.docx,.txt''\<close>
proof -
  have n: "name_file exeFile = ''a.exe''"
    by (simp add: exeFile_def)
  have e: "extension exeFile = ''.exe''"
    unfolding extension_def n by code_simp
  have a: "acceptedTypes defaultAccept = [''.pdf'', ''.doc'', ''.docx'', ''.txt'']"
    by code_simp
  show ?thesis
    by (simp add: validateFile_def e a maxSize_def unsupportedMessage_def)
      (simp add: exeFile_def defaultConfig_def defaultAccept_def)
qed

text \<open>
  C9, amended. A file whose size is exactly \<open>maxFileSizeMB * 1024 * 1024\<close> bytes and
  whose extension is among the accepted formats is accepted (\<open>validateFile\<close> returns
  null), and no file of exactly that size gets the size-limit message. A file one byte
  larger is rejected with the size-limit message, which contains the file's name and the
  configured limit in MB; \<open>validateFile\<close> computes it from the file and the
  configuration alone, and \<open>onDrop\<close> does not put such a file among the selected files,
  which are the only ones \<open>handleUpload\<close> hands on for upload.
\<close>

theorem validateFile_size_limit:
  "(size_file file = maxFileSizeMB cfg * 1024 * 1024 \<and>
      extension file \<in> set (acceptedTypes accept) \<longrightarrow>
        validateFile cfg fmt accept file = None) \<and>
   (size_file file = maxFileSizeMB cfg * 1024 * 1024 \<longrightarrow>
        validateFile cfg fmt accept file \<noteq> Some (tooLargeMessage cfg fmt file)) \<and>
   (size_file file = maxFileSizeMB cfg * 1024 * 1024 + 1 \<longrightarrow>
        validateFile cfg fmt accept file = Some (tooLargeMessage cfg fmt file) \<and>
        includesStr (tooLargeMessage cfg fmt file) (name_file file) \<and>
        includesStr (tooLargeMessage cfg fmt file) (showNat (maxFileSizeMB cfg) @ ''MB'') \<and>
        (file \<notin> set (selectedFiles st) \<longrightarrow>
           file \<notin> set (selectedFiles (onDrop cfg fmt accept acceptedFiles rejectedFiles st))))"
proof (intro conjI impI)
  assume "size_file file = maxFileSizeMB cfg * 1024 * 1024 \<and> extension file \<in> set (acceptedTypes accept)"
  then show "validateFile cfg fmt accept file = None"
    by (simp add: validateFile_def maxSize_def)
next
  assume "size_file file = maxFileSizeMB cfg * 1024 * 1024"
  then show "validateFile cfg fmt accept file \<noteq> Some (tooLargeMessage cfg fmt file)"
    by (simp add: validateFile_def maxSize_def tooLargeMessage_def unsupportedMessage_def)
next
  assume big: "size_file file = maxFileSizeMB cfg * 1024 * 1024 + 1"
  then show v: "validateFile cfg fmt accept file = Some (tooLargeMessage cfg fmt file)"
    by (simp add: validateFile_def maxSize_def)
  show "includesStr (tooLargeMessage cfg fmt file) (name_file file)"
    unfolding tooLargeMessage_def by (rule includesStr_infix)
  have "tooLargeMessage cfg fmt file =
      (''File '' @ [CHR 0x22] @ name_file file @ [CHR 0x22] @ '' is too large. Maximum size is '') @
      (showNat (maxFileSizeMB cfg) @ ''MB'') @
      ('' ('' @ fmt (maxSize cfg) @ '').Its been removed from the list automatically'')"
    by (simp add: tooLargeMessage_def)
  then show "includesStr (tooLargeMessage cfg fmt file) (showNat (maxFileSizeMB cfg) @ ''MB'')"
    using includesStr_infix by metis
  show "file \<notin> set (selectedFiles (onDrop cfg fmt accept acceptedFiles rejectedFiles st))"
    if "file \<notin> set (selectedFiles st)"
    using v that by (auto simp: onDrop_def Let_def)
qed

text \<open>
  The instances: \<open>brief.PDF\<close> of exactly 32 MB is accepted, \<open>brief.pdf\<close> of one byte
  more is rejected and does not reach the selected files.
\<close>

theorem validateFile_size_limit_witness:
  "size_file pdfAtLimit = maxFileSizeMB defaultConfig * 1024 * 1024 \<and>
   extension pdfAtLimit \<in> set (acceptedTypes defaultAccept) \<and>
   validateFile defaultConfig wholeMB defaultAccept pdfAtLimit = None \<and>
   size_file pdfOverLimit = maxFileSizeMB defaultConfig * 1024 * 1024 + 1 \<and>
   validateFile defaultConfig wholeMB defaultAccept pdfOverLimit =
     Some (tooLargeMessage defaultConfig wholeMB pdfOverLimit) \<and>
   includesStr (tooLargeMessage defaultConfig wholeMB pdfOverLimit) ''brief.pdf'' \<and>
   includesStr (tooLargeMessage defaultConfig wholeMB pdfOverLimit) ''32MB'' \<and>
   selectedFiles (onDrop defaultConfig wholeMB defaultAccept [pdfAtLimit, pdfOverLimit] []
                    \<lparr> selectedFiles = [], errors = [] \<rparr>) = [pdfAtLimit]"
proof -
  have s1: "size_file pdfAtLimit = maxFileSizeMB defaultConfig * 1024 * 1024"
    by (simp add: pdfAtLimit_def defaultConfig_def)
  have s2: "size_file pdfOverLimit = maxFileSizeMB defaultConfig * 1024 * 1024 + 1"
    by (simp add: pdfOverLimit_def defaultConfig_def)
  have n1: "name_file pdfAtLimit = ''brief.PDF''" and n2: "name_file pdfOverLimit = ''brief.pdf''"
    by (simp_all add: pdfAtLimit_def pdfOverLimit_def)
  have a: "acceptedTypes defaultAccept = [''.pdf'', ''.doc'', ''.docx'', ''.txt'']"
    by code_simp
  have e: "extension pdfAtLimit = ''.pdf''"
    unfolding extension_def n1 by code_simp
  have m: "showNat (maxFileSizeMB defaultConfig) @ ''MB'' = ''32MB''"
    unfolding defaultConfig_def by code_simp
  have x: "extension pdfAtLimit \<in> set (acceptedTypes defaultAccept)"
    by (simp add: a e)
  have v1: "validateFile defaultConfig wholeMB defaultAccept pdfAtLimit = None"
    using validateFile_size_limit [of pdfAtLimit defaultConfig defaultAccept wholeMB] s1 x by blast
  have v2: "validateFile defaultConfig wholeMB defaultAccept pdfOverLimit =
      Some (tooLargeMessage defaultConfig wholeMB pdfOverLimit) \<and>
    includesStr (tooLargeMessage defaultConfig wholeMB pdfOverLimit) (name_file pdfOverLimit) \<and>
    includesStr (tooLargeMessage defaultConfig wholeMB pdfOverLimit)
      (showNat (maxFileSizeMB defaultConfig) @ ''MB'')"
    using validateFile_size_limit [of pdfOverLimit defaultConfig defaultAccept wholeMB] s2 by blast
  have d: "selectedFiles (onDrop defaultConfig wholeMB defaultAccept [pdfAtLimit, pdfOverLimit] []
                    \<lparr> selectedFiles = [], errors = [] \<rparr>) = [pdfAtLimit]"
    using v1 v2 by (simp add: onDrop_def Let_def maxFiles_def defaultConfig_def)
  show ?thesis
    using s1 s2 x v1 v2 d n2 m by simp
qed

section \<open>Properties of the citation mapping\<close>

lemma mapCitation_agree: "mapCitation caseId c = Inr m \<Longrightarrow> namesAgree m"
  by (auto simp: mapCitation_def namesAgree_def Let_def split: if_splits)

lemma mapCitations_agree:
  "mapCitations caseId cs = Inr ms \<Longrightarrow> \<forall>m \<in> set ms. namesAgree m"
proof (induction cs arbitrary: ms)
  case Nil
  then show ?case by simp
next
  case (Cons c cs)
  then show ?case
    by (auto split: sum.splits dest: mapCitation_agree)
qed

lemma mapCitations_source:
  "mapCitations caseId cs = Inr ms \<Longrightarrow>
   length ms = length cs \<and> (\<forall>i < length cs. mapCitation caseId (cs ! i) = Inr (ms ! i))"
proof (induction cs arbitrary: ms)
  case Nil
  then show ?case by simp
next
  case (Cons c cs)
  then show ?case
    by (auto split: sum.splits simp: nth_Cons split: nat.splits)
qed

lemma chatWithCase_source:
  assumes "chatWithCase caseId handled = Inr r"
  shows "\<forall>m \<in> set (citations_result r). namesAgree m \<and> (\<exists>c. mapCitation caseId c = Inr m)"
proof -
  obtain cs where ms: "mapCitations caseId cs = Inr (citations_result r)"
    using assms by (auto simp: chatWithCase_def split: sum.splits json.splits)
  have "\<exists>c. mapCitation caseId c = Inr m" if "m \<in> set (citations_result r)" for m
  proof -
    from that obtain i where "i < length (citations_result r)" and "citations_result r ! i = m"
      by (auto simp: in_set_conv_nth)
    then show ?thesis
      using mapCitations_source [OF ms] by auto
  qed
  then show ?thesis
    using mapCitations_agree [OF ms] by blast
qed

lemma mapCitation_defaults:
  assumes "mapCitation caseId c = Inr m"
  shows "(ownProp c (js ''page_number'') = None \<longrightarrow> page_number m = JNum 1 \<and> page m = JNum 1) \<and>
      (ownProp c (js ''chunk_number'') = None \<longrightarrow> chunk_number m = JNum 0) \<and>
      (ownProp c (js ''score'') = None \<longrightarrow> score m = JNum 0) \<and>
      (ownProp c (js ''document_name'') = None \<longrightarrow>
         document_name m = orElse (ownProp c (js ''document_id'')) (JStr (js ''Unknown Document''))) \<and>
      (ownProp c (js ''document_name'') = None \<and> ownProp c (js ''document_id'') = None \<longrightarrow>
         document_name m = JStr (js ''Unknown Document'')) \<and>
      (ownProp c (js ''document_id'') = None \<longrightarrow> document_id m = JStr []) \<and>
      (ownProp c (js ''content'') = None \<longrightarrow> content m = JStr []) \<and>
      (ownProp c (js ''chunk_id'') = None \<and> ownProp c (js ''id'') = None \<longrightarrow>
         chunk_id m = JStr [])"
proof -
  have nn: "c \<noteq> JNull"
    using assms by (auto simp: mapCitation_def split: if_splits)
  show ?thesis
    using assms nn by (auto simp: mapCitation_def Let_def js_or_def)
qed

text \<open>
  C10. Every citation in the list \<open>chatWithCase\<close> returns comes from the mapping
  function and has its two naming conventions in agreement: \<open>id\<close> is \<open>chunk_id\<close>,
  \<open>documentId\<close> is \<open>document_id\<close>, \<open>documentTitle\<close> is \<open>document_name\<close>, \<open>page\<close> is
  \<open>page_number\<close>, and \<open>relevantSourceText\<close>, \<open>content\<close> and \<open>full_content\<close> are the
  same. Where the backend's citation lacks a field the default stands in: 1 for
  \<open>page_number\<close> and \<open>page\<close>, 0 for \<open>chunk_number\<close> and for \<open>score\<close>, the document id
  or else \<open>Unknown Document\<close> for \<open>document_name\<close>, and the empty string for
  \<open>document_id\<close>, \<open>content\<close> and \<open>chunk_id\<close>.
\<close>

theorem chatWithCase_citations:
  "(chatWithCase caseId handled = Inr r \<longrightarrow>
      (\<forall>m \<in> set (citations_result r). namesAgree m \<and> (\<exists>c. mapCitation caseId c = Inr m))) \<and>
   (mapCitation caseId c = Inr m \<longrightarrow>
      namesAgree m \<and>
      (ownProp c (js ''page_number'') = None \<longrightarrow> page_number m = JNum 1 \<and> page m = JNum 1) \<and>
      (ownProp c (js ''chunk_number'') = None \<longrightarrow> chunk_number m = JNum 0) \<and>
      (ownProp c (js ''score'') = None \<longrightarrow> score m = JNum 0) \<and>
      (ownProp c (js ''document_name'') = None \<longrightarrow>
         document_name m = orElse (ownProp c (js ''document_id'')) (JStr (js ''Unknown Document''))) \<and>
      (ownProp c (js ''document_name'') = None \<and> ownProp c (js ''document_id'') = None \<longrightarrow>
         document_name m = JStr (js ''Unknown Document'')) \<and>
      (ownProp c (js ''document_id'') = None \<longrightarrow> document_id m = JStr []) \<and>
      (ownProp c (js ''content'') = None \<longrightarrow> content m = JStr []) \<and>
      (ownProp c (js ''chunk_id'') = None \<and> ownProp c (js ''id'') = None \<longrightarrow>
         chunk_id m = JStr []))"
  using chatWithCase_source [of caseId handled r] mapCitation_agree [of caseId c m]
    mapCitation_defaults [of caseId c m]
  by blast

text \<open>The instance: an answer with one full citation and one empty citation object.\<close>

theorem chatWithCase_citations_witness:
  "chatWithCase ''c1'' (Inr chatAnswer) = Inr mappedAnswer \<and>
   namesAgree mappedFull \<and> namesAgree mappedEmpty \<and>
   mapCitation ''c1'' emptyCitation = Inr mappedEmpty \<and>
   ownProp emptyCitation (js ''page_number'') = None \<and>
   page_number mappedEmpty = JNum 1 \<and> chunk_number mappedEmpty = JNum 0 \<and>
   score mappedEmpty = JNum 0 \<and> document_name mappedEmpty = JStr (js ''Unknown Document'') \<and>
   content mappedEmpty = JStr []"
proof -
  have m: "mapCitation ''c1'' emptyCitation = Inr mappedEmpty"
    by (simp add: mapCitation_def emptyCitation_def mappedEmpty_def js_or_def)
  have run: "chatWithCase ''c1'' (Inr chatAnswer) = Inr mappedAnswer"
    by (simp add: chatWithCase_def chatAnswer_def fullCitation_def emptyCitation_def getProp_def
        mapCitation_def js_or_def js_def mappedAnswer_def mappedFull_def mappedEmpty_def)
  have none: "ownProp emptyCitation k = None" for k
    by (simp add: emptyCitation_def)
  have agree: "\<forall>m \<in> set (citations_result mappedAnswer). namesAgree m"
    using chatWithCase_citations [of "''c1''" "Inr chatAnswer" mappedAnswer] run by blast
  have "page_number mappedEmpty = JNum 1 \<and> chunk_number mappedEmpty = JNum 0 \<and>
      score mappedEmpty = JNum 0 \<and> document_name mappedEmpty = JStr (js ''Unknown Document'') \<and>
      content mappedEmpty = JStr []"
    using chatWithCase_citations [of "''c1''" "Inr chatAnswer" mappedAnswer emptyCitation mappedEmpty]
      m none by simp
  then show ?thesis
    using run agree m none by (simp add: mappedAnswer_def)
qed

end
